theory Spec2Isabelle
  imports Complex_Main
begin

section \<open>Trajectory prediction over simplicial complexes: the model of the code\<close>

text \<open>
  The theory embeds \<^verbatim>\<open>src/trajectory_analysis/trajectory_experiments.py\<close>:
  the forward passes \<^verbatim>\<open>scone_func\<close>, \<^verbatim>\<open>scnn_func_2/3/4\<close>,
  \<^verbatim>\<open>ebli_func\<close>, \<^verbatim>\<open>bunch_func\<close>, and the parts of
  \<^verbatim>\<open>data_setup\<close> and \<^verbatim>\<open>train_model\<close> that build the shift
  operators, the neighbourhood table, the selector \<^verbatim>\<open>Bconds_func\<close>, the path
  prefixes and the regional masks.

  Arrays are two-dimensional arrays of real numbers (the floating-point numbers of the
  source are idealised as reals). Every raise of the source is a value \<open>Inl e\<close>.
\<close>

subsection \<open>Errors\<close>

datatype error =
    AssertionError
  | IndexError int
  | KeyError nat
  | ShapeError
  | ZeroDivisionError
  | EmptySequence
  | LoadError
  | Exception string

text \<open>
  \<open>ShapeError\<close> is the error of \<^verbatim>\<open>@\<close> and \<^verbatim>\<open>+\<close> on
  incompatible shapes and of building an array from ragged rows; \<open>EmptySequence\<close> is
  the error of \<^verbatim>\<open>max\<close> on an empty sequence; \<open>IndexError i\<close> carries the
  index that was read.
\<close>

definition ebind :: "error + 'a \<Rightarrow> ('a \<Rightarrow> error + 'b) \<Rightarrow> error + 'b" where
  "ebind m f = (case m of Inl e \<Rightarrow> Inl e | Inr x \<Rightarrow> f x)"

fun for_loop :: "nat list \<Rightarrow> (nat \<Rightarrow> 'a \<Rightarrow> error + 'a) \<Rightarrow> 'a \<Rightarrow> error + 'a" where
  "for_loop [] body s = Inr s"
| "for_loop (i # is) body s = ebind (body i s) (for_loop is body)"

fun traverse :: "('a \<Rightarrow> error + 'b) \<Rightarrow> 'a list \<Rightarrow> error + 'b list" where
  "traverse f [] = Inr []"
| "traverse f (x # xs) = ebind (f x) (\<lambda>y. ebind (traverse f xs) (\<lambda>ys. Inr (y # ys)))"

subsection \<open>Two-dimensional arrays\<close>

text \<open>
  An array carries its shape, as a numpy array does (a \<open>0 \<times> 3\<close> array is not a
  \<open>0 \<times> 0\<close> array), and its rows. \<open>mk r c f\<close> tabulates \<open>f\<close>; \<open>ent A i j\<close>
  reads an entry.
\<close>

datatype mat = Mat (nrows: nat) (ncols: nat) (rows: "real list list")

definition ent :: "mat \<Rightarrow> nat \<Rightarrow> nat \<Rightarrow> real" where
  "ent A i j = rows A ! i ! j"

definition mk :: "nat \<Rightarrow> nat \<Rightarrow> (nat \<Rightarrow> nat \<Rightarrow> real) \<Rightarrow> mat" where
  "mk r c f = Mat r c (map (\<lambda>i. map (\<lambda>j. f i j) [0..<c]) [0..<r])"

definition wf_mat :: "mat \<Rightarrow> bool" where
  "wf_mat A \<longleftrightarrow> length (rows A) = nrows A \<and> list_all (\<lambda>r. length r = ncols A) (rows A)"

definition zeros :: "nat \<Rightarrow> nat \<Rightarrow> mat" where
  "zeros r c = mk r c (\<lambda>i j. 0)"

definition transpose_mat :: "mat \<Rightarrow> mat" where
  "transpose_mat A = mk (ncols A) (nrows A) (\<lambda>i j. ent A j i)"

definition matmul :: "mat \<Rightarrow> mat \<Rightarrow> error + mat" where
  "matmul A B =
     (if ncols A \<noteq> nrows B then Inl ShapeError
      else Inr (mk (nrows A) (ncols B) (\<lambda>i j. \<Sum>k\<leftarrow>[0..<ncols A]. ent A i k * ent B k j)))"

text \<open>Element-wise addition with numpy's broadcasting of axes of length one.\<close>

definition bdim :: "nat \<Rightarrow> nat \<Rightarrow> nat option" where
  "bdim a b = (if a = b then Some a else if a = 1 then Some b else if b = 1 then Some a else None)"

definition bidx :: "nat \<Rightarrow> nat \<Rightarrow> nat" where
  "bidx d i = (if d = 1 then 0 else i)"

definition madd :: "mat \<Rightarrow> mat \<Rightarrow> error + mat" where
  "madd A B =
     (case bdim (nrows A) (nrows B) of
        None \<Rightarrow> Inl ShapeError
      | Some r \<Rightarrow>
          (case bdim (ncols A) (ncols B) of
             None \<Rightarrow> Inl ShapeError
           | Some c \<Rightarrow>
               Inr (mk r c (\<lambda>i j. ent A (bidx (nrows A) i) (bidx (ncols A) j)
                                 + ent B (bidx (nrows B) i) (bidx (ncols B) j)))))"

definition map_mat :: "(real \<Rightarrow> real) \<Rightarrow> mat \<Rightarrow> mat" where
  "map_mat g A = mk (nrows A) (ncols A) (\<lambda>i j. g (ent A i j))"

definition relu :: "mat \<Rightarrow> mat" where
  "relu x = map_mat (\<lambda>v. max v 0) x"

definition tanh_arr :: "mat \<Rightarrow> mat" where
  "tanh_arr x = map_mat tanh x"

text \<open>
  \<^verbatim>\<open>jax.scipy.special.logsumexp\<close> over all entries of the array, and the
  subtraction of that scalar from every entry.
\<close>

definition sumexp :: "mat \<Rightarrow> real" where
  "sumexp A = (\<Sum>i\<leftarrow>[0..<nrows A]. \<Sum>j\<leftarrow>[0..<ncols A]. exp (ent A i j))"

definition logsumexp :: "mat \<Rightarrow> real" where
  "logsumexp A = ln (sumexp A)"

definition sub_scalar :: "mat \<Rightarrow> real \<Rightarrow> mat" where
  "sub_scalar A s = map_mat (\<lambda>v. v - s) A"

text \<open>\<^verbatim>\<open>np.diag(flips)\<close> for a vector of integers.\<close>

definition diag :: "int list \<Rightarrow> mat" where
  "diag flips = mk (length flips) (length flips)
     (\<lambda>i j. if i = j then real_of_int (flips ! i) else 0)"

subsection \<open>Indexing\<close>

text \<open>A Python list: a negative index counts from the end, an index out of range raises.\<close>

definition getw :: "'a list \<Rightarrow> int \<Rightarrow> error + 'a" where
  "getw weights i =
     (if 0 \<le> i \<and> i < int (length weights) then Inr (weights ! nat i)
      else if i < 0 \<and> - int (length weights) \<le> i then Inr (weights ! nat (int (length weights) + i))
      else Inl (IndexError i))"

text \<open>
  A jax array indexed along its first axis: a negative index counts from the end, and an
  index out of range is clamped to the nearest valid one. Indexing an axis of length zero
  is an error.
\<close>

definition jax_index :: "nat \<Rightarrow> int \<Rightarrow> nat" where
  "jax_index n i =
     (let j = (if i < 0 then i + int n else i) in nat (max 0 (min (int n - 1) j)))"

definition jax_row :: "int list list \<Rightarrow> int \<Rightarrow> error + int list" where
  "jax_row tbl n = (if tbl = [] then Inl (IndexError n) else Inr (tbl ! jax_index (length tbl) n))"

definition take_rows :: "mat \<Rightarrow> int list \<Rightarrow> error + mat" where
  "take_rows A Nv =
     (if nrows A = 0 \<and> Nv \<noteq> [] then Inl (IndexError (hd Nv))
      else Inr (mk (length Nv) (ncols A) (\<lambda>j c. ent A (jax_index (nrows A) (Nv ! j)) c)))"

subsection \<open>The forward passes\<close>

text \<open>
  The terms of a layer, in the order Python evaluates them:
  \<^verbatim>\<open>cur_out @ weights[k]\<close> reads the weight and multiplies;
  \<^verbatim>\<open>S @ cur_out @ weights[k]\<close> multiplies \<open>S\<close> and \<open>cur_out\<close>, reads the
  weight and multiplies; \<^verbatim>\<open>a + b\<close> evaluates \<open>a\<close>, then \<open>b\<close>, then adds.
\<close>

definition own_term :: "mat list \<Rightarrow> mat \<Rightarrow> int \<Rightarrow> error + mat" where
  "own_term weights cur_out k = ebind (getw weights k) (\<lambda>w. matmul cur_out w)"

definition op_term :: "mat list \<Rightarrow> mat \<Rightarrow> mat \<Rightarrow> int \<Rightarrow> error + mat" where
  "op_term weights S cur_out k =
     ebind (matmul S cur_out) (\<lambda>a. ebind (getw weights k) (\<lambda>w. matmul a w))"

definition plus_term :: "error + mat \<Rightarrow> error + mat \<Rightarrow> error + mat" where
  "plus_term a b = ebind a (\<lambda>x. ebind b (\<lambda>y. madd x y))"

text \<open>
  The last two statements of every forward pass but \<^verbatim>\<open>bunch_func\<close>:
  \<^verbatim>\<open>logits = Bcond_func(last_node) @ cur_out @ weights[-1]\<close> and
  \<^verbatim>\<open>return logits - logsumexp(logits)\<close>.
\<close>

definition log_softmax :: "mat \<Rightarrow> mat" where
  "log_softmax logits = sub_scalar logits (logsumexp logits)"

definition readout :: "mat list \<Rightarrow> (int \<Rightarrow> error + mat) \<Rightarrow> int \<Rightarrow> mat \<Rightarrow> error + mat" where
  "readout weights Bcond_func last_node cur_out =
     ebind (Bcond_func last_node) (\<lambda>b.
     ebind (matmul b cur_out) (\<lambda>t.
     ebind (getw weights (- 1)) (\<lambda>w.
     ebind (matmul t w) (\<lambda>logits. Inr (log_softmax logits)))))"

text \<open>\<^verbatim>\<open>scone_func\<close>, lines 141 to 159.\<close>

definition scone_layer :: "mat list \<Rightarrow> mat \<Rightarrow> mat \<Rightarrow> nat \<Rightarrow> mat \<Rightarrow> error + mat" where
  "scone_layer weights S_lower S_upper i cur_out =
     ebind (plus_term (plus_term
              (own_term weights cur_out (int i * 3))
              (op_term weights S_lower cur_out (int i * 3 + 1)))
              (op_term weights S_upper cur_out (int i * 3 + 2)))
       (\<lambda>s. Inr (tanh_arr s))"

definition scone_func ::
  "mat list \<Rightarrow> mat \<Rightarrow> mat \<Rightarrow> (int \<Rightarrow> error + mat) \<Rightarrow> int \<Rightarrow> mat \<Rightarrow> error + mat" where
  "scone_func weights S_lower S_upper Bcond_func last_node flow =
     (let n = int (length weights) - 1 in
      if n mod 3 \<noteq> 0 then Inl AssertionError
      else ebind (for_loop [0..<nat (n div 3)] (scone_layer weights S_lower S_upper) flow)
             (readout weights Bcond_func last_node))"

text \<open>
  \<^verbatim>\<open>scnn_func_2\<close>, lines 179 to 198. The keyword parameters \<open>k1\<close> and \<open>k2\<close>
  default to \<^verbatim>\<open>HYPERPARAMS['k1_scnn']\<close> and \<^verbatim>\<open>HYPERPARAMS['k2_scnn']\<close>.
  \<^verbatim>\<open>(len(weights) - 1) / (1+k1+k2)\<close> is a true division: it raises on a zero
  divisor, and \<^verbatim>\<open>n_layers % 1 == 0\<close> holds when the divisor divides.
\<close>

definition scnn2_layer ::
  "mat list \<Rightarrow> mat \<Rightarrow> mat \<Rightarrow> mat \<Rightarrow> mat \<Rightarrow> int \<Rightarrow> nat \<Rightarrow> mat \<Rightarrow> error + mat" where
  "scnn2_layer weights S_lower S2_lower S_upper S2_upper n_k i cur_out =
     ebind (plus_term (plus_term (plus_term (plus_term
              (own_term weights cur_out (int i * n_k))
              (op_term weights S_lower cur_out (int i * n_k + 1)))
              (op_term weights S2_lower cur_out (int i * n_k + 2)))
              (op_term weights S_upper cur_out (int i * n_k + 3)))
              (op_term weights S2_upper cur_out (int i * n_k + 4)))
       (\<lambda>s. Inr (tanh_arr s))"

definition scnn_func_2 ::
  "mat list \<Rightarrow> mat \<Rightarrow> mat \<Rightarrow> mat \<Rightarrow> mat \<Rightarrow> (int \<Rightarrow> error + mat) \<Rightarrow> int \<Rightarrow> mat
   \<Rightarrow> int \<Rightarrow> int \<Rightarrow> error + mat" where
  "scnn_func_2 weights S_lower S2_lower S_upper S2_upper Bcond_func last_node flow k1 k2 =
     (let n = int (length weights) - 1; n_k = 1 + k1 + k2 in
      if n_k = 0 then Inl ZeroDivisionError
      else if n mod n_k \<noteq> 0 then Inl AssertionError
      else ebind (for_loop [0..<nat (n div n_k)]
                    (scnn2_layer weights S_lower S2_lower S_upper S2_upper n_k) flow)
             (readout weights Bcond_func last_node))"

text \<open>\<^verbatim>\<open>scnn_func_3\<close>, lines 200 to 221.\<close>

definition scnn3_layer ::
  "mat list \<Rightarrow> mat \<Rightarrow> mat \<Rightarrow> mat \<Rightarrow> mat \<Rightarrow> mat \<Rightarrow> mat \<Rightarrow> int \<Rightarrow> nat \<Rightarrow> mat \<Rightarrow> error + mat" where
  "scnn3_layer weights S_lower S2_lower S3_lower S_upper S2_upper S3_upper n_k i cur_out =
     ebind (plus_term (plus_term (plus_term (plus_term (plus_term (plus_term
              (own_term weights cur_out (int i * n_k))
              (op_term weights S_lower cur_out (int i * n_k + 1)))
              (op_term weights S2_lower cur_out (int i * n_k + 2)))
              (op_term weights S3_lower cur_out (int i * n_k + 3)))
              (op_term weights S_upper cur_out (int i * n_k + 4)))
              (op_term weights S2_upper cur_out (int i * n_k + 5)))
              (op_term weights S3_upper cur_out (int i * n_k + 6)))
       (\<lambda>s. Inr (tanh_arr s))"

definition scnn_func_3 ::
  "mat list \<Rightarrow> mat \<Rightarrow> mat \<Rightarrow> mat \<Rightarrow> mat \<Rightarrow> mat \<Rightarrow> mat \<Rightarrow> (int \<Rightarrow> error + mat) \<Rightarrow> int \<Rightarrow> mat
   \<Rightarrow> int \<Rightarrow> int \<Rightarrow> error + mat" where
  "scnn_func_3 weights S_lower S2_lower S3_lower S_upper S2_upper S3_upper
       Bcond_func last_node flow k1 k2 =
     (let n = int (length weights) - 1; n_k = 1 + k1 + k2 in
      if n_k = 0 then Inl ZeroDivisionError
      else if n mod n_k \<noteq> 0 then Inl AssertionError
      else ebind (for_loop [0..<nat (n div n_k)]
                    (scnn3_layer weights S_lower S2_lower S3_lower S_upper S2_upper S3_upper n_k)
                    flow)
             (readout weights Bcond_func last_node))"

text \<open>
  \<^verbatim>\<open>scnn_func_4\<close>, lines 223 to 246. The term with weight \<open>i*n_k + 4\<close>
  multiplies \<open>S4_upper\<close>, as line 237 does; the parameter \<open>S4_lower\<close> is not read.
\<close>

definition scnn4_layer ::
  "mat list \<Rightarrow> mat \<Rightarrow> mat \<Rightarrow> mat \<Rightarrow> mat \<Rightarrow> mat \<Rightarrow> mat \<Rightarrow> mat \<Rightarrow> mat \<Rightarrow> int \<Rightarrow> nat \<Rightarrow> mat
   \<Rightarrow> error + mat" where
  "scnn4_layer weights S_lower S2_lower S3_lower S4_lower S_upper S2_upper S3_upper S4_upper
       n_k i cur_out =
     ebind (plus_term (plus_term (plus_term (plus_term (plus_term (plus_term (plus_term (plus_term
              (own_term weights cur_out (int i * n_k))
              (op_term weights S_lower cur_out (int i * n_k + 1)))
              (op_term weights S2_lower cur_out (int i * n_k + 2)))
              (op_term weights S3_lower cur_out (int i * n_k + 3)))
              (op_term weights S4_upper cur_out (int i * n_k + 4)))
              (op_term weights S_upper cur_out (int i * n_k + 5)))
              (op_term weights S2_upper cur_out (int i * n_k + 6)))
              (op_term weights S3_upper cur_out (int i * n_k + 7)))
              (op_term weights S4_upper cur_out (int i * n_k + 8)))
       (\<lambda>s. Inr (tanh_arr s))"

definition scnn_func_4 ::
  "mat list \<Rightarrow> mat \<Rightarrow> mat \<Rightarrow> mat \<Rightarrow> mat \<Rightarrow> mat \<Rightarrow> mat \<Rightarrow> mat \<Rightarrow> mat
   \<Rightarrow> (int \<Rightarrow> error + mat) \<Rightarrow> int \<Rightarrow> mat \<Rightarrow> int \<Rightarrow> int \<Rightarrow> error + mat" where
  "scnn_func_4 weights S_lower S2_lower S3_lower S4_lower S_upper S2_upper S3_upper S4_upper
       Bcond_func last_node flow k1 k2 =
     (let n = int (length weights) - 1; n_k = 1 + k1 + k2 in
      if n_k = 0 then Inl ZeroDivisionError
      else if n mod n_k \<noteq> 0 then Inl AssertionError
      else ebind (for_loop [0..<nat (n div n_k)]
                    (scnn4_layer weights S_lower S2_lower S3_lower S4_lower
                       S_upper S2_upper S3_upper S4_upper n_k) flow)
             (readout weights Bcond_func last_node))"

text \<open>\<^verbatim>\<open>ebli_func\<close>, lines 249 to 269.\<close>

definition ebli_layer :: "mat list \<Rightarrow> mat \<Rightarrow> mat \<Rightarrow> mat \<Rightarrow> nat \<Rightarrow> mat \<Rightarrow> error + mat" where
  "ebli_layer weights S S2 S3 i cur_out =
     ebind (plus_term (plus_term (plus_term
              (own_term weights cur_out (int i * 4))
              (op_term weights S cur_out (int i * 4 + 1)))
              (op_term weights S2 cur_out (int i * 4 + 2)))
              (op_term weights S3 cur_out (int i * 4 + 3)))
       (\<lambda>s. Inr (tanh_arr s))"

definition ebli_func ::
  "mat list \<Rightarrow> mat \<Rightarrow> mat \<Rightarrow> mat \<Rightarrow> (int \<Rightarrow> error + mat) \<Rightarrow> int \<Rightarrow> mat \<Rightarrow> error + mat" where
  "ebli_func weights S S2 S3 Bcond_func last_node flow =
     (let n = int (length weights) - 1 in
      if n mod 4 \<noteq> 0 then Inl AssertionError
      else ebind (for_loop [0..<nat (n div 4)] (ebli_layer weights S S2 S3) flow)
             (readout weights Bcond_func last_node))"

text \<open>
  \<^verbatim>\<open>bunch_func\<close>, lines 272 to 299. The state is the triple of the node, edge
  and triangle signals; the three assignments of a layer run in order; the logits are the
  rows of the node signal at the padded neighbour list of the last node (lines 296 to 299,
  \<open>bunch_readout\<close>).
\<close>

definition bunch_layer ::
  "mat list \<Rightarrow> mat \<Rightarrow> mat \<Rightarrow> mat \<Rightarrow> mat \<Rightarrow> mat \<Rightarrow> mat \<Rightarrow> mat \<Rightarrow> nat \<Rightarrow> mat \<times> mat \<times> mat
   \<Rightarrow> error + mat \<times> mat \<times> mat" where
  "bunch_layer weights S_00 S_10 S_01 S_11 S_21 S_12 S_22 i cur_out =
     (case cur_out of (c0, c1, c2) \<Rightarrow>
        ebind (plus_term (op_term weights S_00 c0 (int i * 7))
                         (op_term weights S_10 c1 (int i * 7 + 1))) (\<lambda>n0.
        ebind (plus_term (plus_term (op_term weights S_01 c0 (int i * 7 + 2))
                                    (op_term weights S_11 c1 (int i * 7 + 3)))
                         (op_term weights S_21 c2 (int i * 7 + 4))) (\<lambda>n1.
        ebind (plus_term (op_term weights S_12 c1 (int i * 7 + 5))
                         (op_term weights S_22 c2 (int i * 7 + 6))) (\<lambda>n2.
        Inr (relu n0, relu n1, relu n2)))))"

definition bunch_readout :: "int list list \<Rightarrow> int \<Rightarrow> mat \<times> mat \<times> mat \<Rightarrow> error + mat" where
  "bunch_readout nbrhoods last_node cur_out =
     (case cur_out of (nodes_out, c1, c2) \<Rightarrow>
        ebind (jax_row nbrhoods last_node) (\<lambda>Nv.
        ebind (take_rows nodes_out Nv) (\<lambda>logits. Inr (log_softmax logits))))"

definition bunch_func ::
  "mat list \<Rightarrow> mat \<Rightarrow> mat \<Rightarrow> mat \<Rightarrow> mat \<Rightarrow> mat \<Rightarrow> mat \<Rightarrow> mat \<Rightarrow> int list list \<Rightarrow> int \<Rightarrow> mat
   \<Rightarrow> error + mat" where
  "bunch_func weights S_00 S_10 S_01 S_11 S_21 S_12 S_22 nbrhoods last_node flow =
     (let n = int (length weights) in
      if n mod 7 \<noteq> 0 then Inl AssertionError
      else ebind (for_loop [0..<nat (n div 7)]
                    (bunch_layer weights S_00 S_10 S_01 S_11 S_21 S_12 S_22)
                    (zeros (ncols S_00) 1, flow, zeros (ncols S_22) 1))
             (bunch_readout nbrhoods last_node))"

text \<open>
  The layer as the specification words it, for any ordered operator list: the signal times
  the layer's own weight, plus, for the \<open>j\<close>-th operator of the list, the operator times
  the signal times the weight \<open>i*n_k + 1 + j\<close>, followed by the hyperbolic tangent.
\<close>

fun spec_terms :: "mat list \<Rightarrow> mat list \<Rightarrow> mat \<Rightarrow> int \<Rightarrow> error + mat \<Rightarrow> error + mat" where
  "spec_terms weights [] cur_out k acc = acc"
| "spec_terms weights (S # ops) cur_out k acc =
     spec_terms weights ops cur_out (k + 1) (plus_term acc (op_term weights S cur_out k))"

definition spec_layer :: "mat list \<Rightarrow> mat list \<Rightarrow> int \<Rightarrow> nat \<Rightarrow> mat \<Rightarrow> error + mat" where
  "spec_layer weights ops n_k i cur_out =
     ebind (spec_terms weights ops cur_out (int i * n_k + 1)
              (own_term weights cur_out (int i * n_k)))
       (\<lambda>s. Inr (tanh_arr s))"

subsection \<open>The hyperparameters\<close>

text \<open>
  The entries of \<^verbatim>\<open>HYPERPARAMS\<close> that the modelled code reads, with the defaults of
  lines 87 to 105.
\<close>

record hyperparams =
  model :: string
  k1_scnn :: int
  k2_scnn :: int
  regional :: real
  flip_edges :: real

definition HYPERPARAMS :: hyperparams where
  "HYPERPARAMS = \<lparr>model = ''scnn2'', k1_scnn = 2, k2_scnn = 2, regional = 0, flip_edges = 0\<rparr>"

subsection \<open>\<^verbatim>\<open>data_setup\<close>: the shift operators\<close>

text \<open>
  Lines 336 to 369. \<open>F\<close> is \<^verbatim>\<open>np.diag(flips)\<close>, read only under
  \<^verbatim>\<open>flip_edges\<close>. \<^verbatim>\<open>compute_shift_matrices\<close> is imported from a module that
  is not part of the sources at hand and is a parameter.
\<close>

definition L1_lower :: "mat \<Rightarrow> error + mat" where
  "L1_lower B1 = matmul (transpose_mat B1) B1"

definition L1_upper :: "mat \<Rightarrow> error + mat" where
  "L1_upper B2 = matmul B2 (transpose_mat B2)"

definition flip_conj :: "mat \<Rightarrow> mat \<Rightarrow> error + mat" where
  "flip_conj F L = ebind (matmul F L) (\<lambda>t. matmul t F)"

definition pow2 :: "mat \<Rightarrow> error + mat" where
  "pow2 L = matmul L L"

definition pow3 :: "mat \<Rightarrow> error + mat" where
  "pow3 L = ebind (matmul L L) (\<lambda>t. matmul t L)"

definition pow4 :: "mat \<Rightarrow> error + mat" where
  "pow4 L = ebind (ebind (matmul L L) (\<lambda>t. matmul t L)) (\<lambda>t. matmul t L)"

definition shifts ::
  "hyperparams \<Rightarrow> mat \<Rightarrow> (mat \<Rightarrow> mat \<Rightarrow> error + mat list) \<Rightarrow> mat \<Rightarrow> mat \<Rightarrow> error + mat list" where
  "shifts hp F compute_shift_matrices B1 B2 =
     ebind (L1_lower B1) (\<lambda>l0.
     ebind (L1_upper B2) (\<lambda>u0.
     ebind (if flip_edges hp \<noteq> 0 then flip_conj F l0 else Inr l0) (\<lambda>lower.
     ebind (if flip_edges hp \<noteq> 0 then flip_conj F u0 else Inr u0) (\<lambda>upper.
       if model hp = ''scone'' then Inr [lower, upper]
       else if model hp = ''scnn2'' then
         ebind (pow2 lower) (\<lambda>l2. ebind (pow2 upper) (\<lambda>u2. Inr [lower, l2, upper, u2]))
       else if model hp = ''scnn3'' then
         ebind (pow2 lower) (\<lambda>l2. ebind (pow3 lower) (\<lambda>l3.
         ebind (pow2 upper) (\<lambda>u2. ebind (pow3 upper) (\<lambda>u3.
           Inr [lower, l2, l3, upper, u2, u3]))))
       else if model hp = ''scnn4'' then
         ebind (pow2 lower) (\<lambda>l2. ebind (pow3 lower) (\<lambda>l3. ebind (pow4 lower) (\<lambda>l4.
         ebind (pow2 upper) (\<lambda>u2. ebind (pow3 upper) (\<lambda>u3. ebind (pow4 upper) (\<lambda>u4.
           Inr [lower, l2, l3, l4, upper, u2, u3, u4]))))))
       else if model hp = ''ebli'' then
         ebind (madd lower upper) (\<lambda>L1.
         ebind (pow2 L1) (\<lambda>p2. ebind (pow3 L1) (\<lambda>p3. Inr [L1, p2, p3])))
       else if model hp = ''bunch'' then compute_shift_matrices B1 B2
       else Inl (Exception ''invalid model type'')))))"

text \<open>
  The powers as the specification words them: \<open>L\<close> multiplied by itself repeatedly.
\<close>

fun mat_power :: "mat \<Rightarrow> nat \<Rightarrow> error + mat" where
  "mat_power L 0 = Inr (mk (nrows L) (nrows L) (\<lambda>i j. if i = j then 1 else 0))"
| "mat_power L (Suc 0) = Inr L"
| "mat_power L (Suc (Suc n)) = ebind (mat_power L (Suc n)) (\<lambda>P. matmul P L)"

text \<open>The quadratic form \<open>x\<^sup>T L x\<close> of a vector \<open>x\<close>.\<close>

definition quad_form :: "real list \<Rightarrow> mat \<Rightarrow> real" where
  "quad_form x L = (\<Sum>i\<leftarrow>[0..<nrows L]. \<Sum>j\<leftarrow>[0..<ncols L]. x ! i * ent L i j * x ! j)"

subsection \<open>\<^verbatim>\<open>data_setup\<close>: the neighbourhood table and the selector\<close>

text \<open>
  The graph \<^verbatim>\<open>G_undir\<close> is a networkx graph; what the code reads of it is its
  adjacency: the nodes, the neighbours \<^verbatim>\<open>G_undir[n]\<close> of a node (a
  \<^verbatim>\<open>KeyError\<close> for a node the graph does not have), and the degree, which counts a
  self-loop twice.
\<close>

type_synonym graph = "(nat \<times> nat list) list"

definition nodes :: "graph \<Rightarrow> nat list" where
  "nodes G = map fst G"

definition adj :: "graph \<Rightarrow> nat \<Rightarrow> error + nat list" where
  "adj G n = (case map_of G n of None \<Rightarrow> Inl (KeyError n) | Some ns \<Rightarrow> Inr ns)"

definition degree :: "graph \<Rightarrow> nat \<Rightarrow> nat" where
  "degree G n =
     (case map_of G n of None \<Rightarrow> 0 | Some ns \<Rightarrow> length ns + (if n \<in> set ns then 1 else 0))"

fun list_max :: "nat list \<Rightarrow> error + nat" where
  "list_max [] = Inl EmptySequence"
| "list_max (x # xs) = Inr (fold max xs x)"

definition max_degree :: "graph \<Rightarrow> error + nat" where
  "max_degree G = list_max (map (degree G) (nodes G))"

text \<open>
  Line 388: for every \<open>n\<close> in \<^verbatim>\<open>range(max(G_undir.nodes) + 1)\<close>, the sorted
  neighbours of \<open>n\<close> followed by \<open>max_degree - len(G_undir[n])\<close> entries \<open>-1\<close>; the
  rows become an array, which raises when they differ in length.
\<close>

definition padded_row :: "graph \<Rightarrow> nat \<Rightarrow> nat \<Rightarrow> error + int list" where
  "padded_row G md n =
     ebind (adj G n) (\<lambda>ns. Inr (map int (sort ns) @ replicate (md - length ns) (- 1)))"

definition int_array :: "int list list \<Rightarrow> error + int list list" where
  "int_array rs =
     (case rs of [] \<Rightarrow> Inr []
      | r # rest \<Rightarrow> if list_all (\<lambda>q. length q = length r) rest then Inr rs else Inl ShapeError)"

definition nbrhoods :: "graph \<Rightarrow> error + int list list" where
  "nbrhoods G =
     ebind (max_degree G) (\<lambda>md.
     ebind (list_max (nodes G)) (\<lambda>mx.
     ebind (traverse (padded_row G md) [0..<mx + 1]) int_array))"

text \<open>
  Lines 397 to 400: one row of zeros is appended to \<open>B1\<close>; under
  \<^verbatim>\<open>flip_edges\<close> the result is multiplied by \<open>F\<close> on the right.
\<close>

definition append_rows :: "mat \<Rightarrow> mat \<Rightarrow> error + mat" where
  "append_rows A B =
     (if ncols A \<noteq> ncols B then Inl ShapeError
      else Inr (mk (nrows A + nrows B) (ncols A)
                  (\<lambda>i j. if i < nrows A then ent A i j else ent B (i - nrows A) j)))"

definition B1_jax :: "hyperparams \<Rightarrow> mat \<Rightarrow> mat \<Rightarrow> error + mat" where
  "B1_jax hp F B1 =
     ebind (append_rows B1 (zeros 1 (ncols B1))) (\<lambda>B.
       if flip_edges hp \<noteq> 0 then matmul B F else Inr B)"

text \<open>Lines 407 to 412.\<close>

definition Bconds_func :: "int list list \<Rightarrow> mat \<Rightarrow> int \<Rightarrow> error + mat" where
  "Bconds_func nbrs B n = ebind (jax_row nbrs n) (\<lambda>Nv. take_rows B Nv)"

subsection \<open>\<^verbatim>\<open>data_setup\<close>: the flows and the prefixes\<close>

text \<open>
  The flows \<open>X\<close> have shape \<open>(n_flows, n_edges, 1)\<close>; the model holds them as the
  \<open>n_flows \<times> n_edges\<close> array that lines 403 to 405 reshape them to, and \<open>example X i\<close>
  is the \<open>n_edges \<times> 1\<close> flow of example \<open>i\<close> that a forward pass receives.
\<close>

definition example :: "mat \<Rightarrow> nat \<Rightarrow> mat" where
  "example X i = mk (ncols X) 1 (\<lambda>e j. ent X i e)"

definition flip_inputs :: "hyperparams \<Rightarrow> mat \<Rightarrow> mat \<Rightarrow> error + mat" where
  "flip_inputs hp F X = (if flip_edges hp \<noteq> 0 then matmul X F else Inr X)"

text \<open>
  Lines 391 to 395. \<open>loaded\<close> is the outcome of reading the prefixes file;
  \<^verbatim>\<open>flow_to_path\<close> is imported from a module that is not part of the sources at
  hand and is a parameter, as is the edge list \<open>E\<close> it receives.
\<close>

definition flow_at :: "mat \<Rightarrow> nat \<Rightarrow> error + mat" where
  "flow_at X i = (if i < nrows X then Inr (example X i) else Inl (IndexError (int i)))"

definition prefixes ::
  "error + 'p list \<Rightarrow> (mat \<Rightarrow> 'e \<Rightarrow> int \<Rightarrow> error + 'p) \<Rightarrow> mat \<Rightarrow> 'e \<Rightarrow> int list \<Rightarrow> error + 'p list" where
  "prefixes loaded flow_to_path X E last_nodes =
     (case loaded of
        Inr ps \<Rightarrow> Inr ps
      | Inl err \<Rightarrow>
          traverse (\<lambda>i. ebind (flow_at X i) (\<lambda>flow.
                        ebind (getw last_nodes (int i)) (\<lambda>ln. flow_to_path flow E ln)))
            [0..<length last_nodes])"

subsection \<open>The regional masks of \<^verbatim>\<open>train_model\<close>\<close>

text \<open>
  Lines 560 to 564: under \<^verbatim>\<open>HYPERPARAMS['regional']\<close> the masks loaded with the
  dataset are replaced by masks computed from the example index.
\<close>

definition regional_train_mask :: "nat \<Rightarrow> int list" where
  "regional_train_mask n = map (\<lambda>i. if i mod 3 = 1 then 1 else 0) [0..<n]"

definition regional_test_mask :: "nat \<Rightarrow> int list" where
  "regional_test_mask n = map (\<lambda>i. if i mod 3 = 2 then 1 else 0) [0..<n]"

definition masks ::
  "hyperparams \<Rightarrow> 'a list \<Rightarrow> int list \<Rightarrow> int list \<Rightarrow> int list \<times> int list" where
  "masks hp y_1hop train_mask test_mask =
     (if regional hp \<noteq> 0
      then (regional_train_mask (length y_1hop), regional_test_mask (length y_1hop))
      else (train_mask, test_mask))"

definition selected :: "int list \<Rightarrow> nat set" where
  "selected m = {i. i < length m \<and> m ! i = 1}"

subsection \<open>The errors of a layer\<close>

text \<open>
  \<open>benign len r\<close>: the outcome \<open>r\<close> is a value, a shape error, or the read of an index
  at or beyond the length \<open>len\<close> of the weight list.
\<close>

definition benign :: "nat \<Rightarrow> error + 'a \<Rightarrow> bool" where
  "benign len r =
     (case r of Inr v \<Rightarrow> True
      | Inl e \<Rightarrow> (case e of ShapeError \<Rightarrow> True
                  | IndexError k \<Rightarrow> int len \<le> k
                  | _ \<Rightarrow> False))"

subsection \<open>Probability mass of candidate slots\<close>



subsection \<open>Orientation flips\<close>

text \<open>
  \<^verbatim>\<open>flips\<close> is drawn from \<open>[1, -1]\<close> (line 314), so it is a vector of signs.
  Multiplying by \<^verbatim>\<open>np.diag(flips)\<close> on the left scales the rows, on the right the
  columns; \<open>flipped f n r' r\<close> relates the outcome \<open>r'\<close> of a computation on flipped
  operands to the outcome \<open>r\<close> on the original ones: the same error, or the row-scaled
  array of \<open>n\<close> rows.
\<close>

definition rowscale :: "int list \<Rightarrow> mat \<Rightarrow> mat" where
  "rowscale f A = mk (nrows A) (ncols A) (\<lambda>i j. real_of_int (f ! i) * ent A i j)"

definition colscale :: "int list \<Rightarrow> mat \<Rightarrow> mat" where
  "colscale f A = mk (nrows A) (ncols A) (\<lambda>i j. ent A i j * real_of_int (f ! j))"

definition signs :: "int list \<Rightarrow> bool" where
  "signs f \<longleftrightarrow> list_all (\<lambda>x. x = 1 \<or> x = - 1) f"

definition flipped :: "int list \<Rightarrow> nat \<Rightarrow> error + mat \<Rightarrow> error + mat \<Rightarrow> bool" where
  "flipped f n r' r =
     (case r of Inl e \<Rightarrow> r' = Inl e | Inr M \<Rightarrow> nrows M = n \<and> r' = Inr (rowscale f M))"

section \<open>Properties\<close>

subsection \<open>Arrays and orientation flips\<close>


lemma ebind_Inl [simp]: "ebind (Inl e) f = Inl e"
  by (simp add: ebind_def)

lemma ebind_Inr [simp]: "ebind (Inr x) f = f x"
  by (simp add: ebind_def)

lemma nrows_mk [simp]: "nrows (mk r c f) = r"
  by (simp add: mk_def)

lemma ncols_mk [simp]: "ncols (mk r c f) = c"
  by (simp add: mk_def)

lemma ent_mk [simp]: "i < r \<Longrightarrow> j < c \<Longrightarrow> ent (mk r c f) i j = f i j"
  by (simp add: mk_def ent_def)

lemma mk_cong: "(\<And>i j. i < r \<Longrightarrow> j < c \<Longrightarrow> f i j = g i j) \<Longrightarrow> mk r c f = mk r c g"
  by (simp add: mk_def)

lemma wf_mat_mk [simp]: "wf_mat (mk r c f)"
  by (simp add: wf_mat_def mk_def list_all_iff)

lemma mk_ent: "wf_mat A \<Longrightarrow> mk (nrows A) (ncols A) (ent A) = A"
  by (cases A) (auto simp: wf_mat_def mk_def ent_def list_all_iff intro!: nth_equalityI)

lemma wf_mat_matmul: "matmul A B = Inr C \<Longrightarrow> wf_mat C"
  by (auto simp: matmul_def split: if_splits)

lemma wf_mat_madd: "madd A B = Inr C \<Longrightarrow> wf_mat C"
  by (auto simp: madd_def split: option.splits)

lemma sum_upt: "(\<Sum>k\<leftarrow>[0..<n]. f k) = (\<Sum>k<n. (f k :: real))"
  by (simp add: interv_sum_list_conv_sum_set_nat atLeast0LessThan)

lemma sum_upt_cong:
  "(\<And>k. k < n \<Longrightarrow> f k = (g k :: real)) \<Longrightarrow> (\<Sum>k\<leftarrow>[0..<n]. f k) = (\<Sum>k\<leftarrow>[0..<n]. g k)"
  by (simp add: sum_upt)

lemma signs_sq: "signs f \<Longrightarrow> k < length f \<Longrightarrow> real_of_int (f ! k) * real_of_int (f ! k) = 1"
  by (auto simp: signs_def list_all_length)

lemma nrows_rowscale [simp]: "nrows (rowscale f A) = nrows A"
  and ncols_rowscale [simp]: "ncols (rowscale f A) = ncols A"
  and nrows_colscale [simp]: "nrows (colscale f A) = nrows A"
  and ncols_colscale [simp]: "ncols (colscale f A) = ncols A"
  by (simp_all add: rowscale_def colscale_def)

lemma ent_rowscale [simp]:
  "i < nrows A \<Longrightarrow> j < ncols A \<Longrightarrow> ent (rowscale f A) i j = real_of_int (f ! i) * ent A i j"
  by (simp add: rowscale_def)

lemma ent_colscale [simp]:
  "i < nrows A \<Longrightarrow> j < ncols A \<Longrightarrow> ent (colscale f A) i j = ent A i j * real_of_int (f ! j)"
  by (simp add: colscale_def)

lemma matmul_diag_left: "nrows A = length f \<Longrightarrow> matmul (diag f) A = Inr (rowscale f A)"
  unfolding matmul_def diag_def rowscale_def
  by (auto intro!: mk_cong simp: sum_upt if_distrib [of "\<lambda>x. x * _"] sum.delta cong: if_cong)

lemma matmul_diag_right: "ncols A = length f \<Longrightarrow> matmul A (diag f) = Inr (colscale f A)"
  unfolding matmul_def diag_def colscale_def
  by (auto intro!: mk_cong simp: sum_upt if_distrib [of "\<lambda>x. _ * x"] sum.delta' cong: if_cong)

lemma flip_conj_diag:
  "nrows L = length f \<Longrightarrow> ncols L = length f \<Longrightarrow>
   flip_conj (diag f) L = Inr (colscale f (rowscale f L))"
  by (simp add: flip_conj_def matmul_diag_left matmul_diag_right)

lemma matmul_rowscale_left:
  "matmul (rowscale f X) W = map_sum id (rowscale f) (matmul X W)"
  unfolding matmul_def
  by (auto simp: rowscale_def sum_upt sum_distrib_left mult.assoc intro!: mk_cong)

lemma matmul_conj_rowscale:
  assumes "signs f" "ncols L = length f" "nrows X = length f"
  shows "matmul (colscale f (rowscale f L)) (rowscale f X) = map_sum id (rowscale f) (matmul L X)"
proof -
  have "(\<Sum>k\<leftarrow>[0..<ncols L]. ent (colscale f (rowscale f L)) i k * ent (rowscale f X) k j)
      = real_of_int (f ! i) * (\<Sum>k\<leftarrow>[0..<ncols L]. ent L i k * ent X k j)"
    if "i < nrows L" "j < ncols X" for i j
  proof -
    have "ent (colscale f (rowscale f L)) i k * ent (rowscale f X) k j
        = real_of_int (f ! i) * (ent L i k * ent X k j)" if "k < ncols L" for k
    proof -
      have "ent (colscale f (rowscale f L)) i k * ent (rowscale f X) k j
          = real_of_int (f ! i) * ent L i k * (real_of_int (f ! k) * real_of_int (f ! k)) * ent X k j"
        using that \<open>i < nrows L\<close> \<open>j < ncols X\<close> assms by simp
      then show ?thesis
        using signs_sq [OF assms(1), of k] that assms by simp
    qed
    then show ?thesis
      by (simp add: sum_upt sum_distrib_left)
  qed
  then show ?thesis
    using assms unfolding matmul_def
    by (auto simp: rowscale_def [of f "mk _ _ _"] intro!: mk_cong)
qed

lemma matmul_colscale_rowscale:
  assumes "signs f" "nrows X = length f"
  shows "matmul (colscale f B) (rowscale f X) = matmul B X"
proof (cases "ncols B = nrows X")
  case False
  then show ?thesis by (simp add: matmul_def)
next
  case True
  have "ent (colscale f B) i k * ent (rowscale f X) k j = ent B i k * ent X k j"
    if "i < nrows B" "j < ncols X" "k < ncols B" for i j k
  proof -
    have "ent (colscale f B) i k * ent (rowscale f X) k j
        = ent B i k * (real_of_int (f ! k) * real_of_int (f ! k)) * ent X k j"
      using that True by simp
    then show ?thesis
      using signs_sq [OF assms(1), of k] that True assms by simp
  qed
  then show ?thesis
    using True unfolding matmul_def
    by (auto intro!: mk_cong sum_upt_cong)
qed


lemma tanh_rowscale:
  assumes "signs f" "nrows A = length f"
  shows "tanh_arr (rowscale f A) = rowscale f (tanh_arr A)"
proof -
  have "tanh (real_of_int (f ! i) * v) = real_of_int (f ! i) * tanh v" if "i < length f" for i v
  proof -
    have "f ! i = 1 \<or> f ! i = - 1"
      using assms(1) that by (simp add: signs_def list_all_length)
    then show ?thesis by auto
  qed
  then show ?thesis
    using assms by (auto simp: tanh_arr_def map_mat_def rowscale_def intro!: mk_cong)
qed

lemma madd_rowscale:
  assumes "nrows A = nrows B"
  shows "madd (rowscale f A) (rowscale f B) = map_sum id (rowscale f) (madd A B)"
  using assms
  by (auto simp: madd_def bdim_def bidx_def rowscale_def distrib_left
      split: option.splits if_splits intro!: mk_cong)

lemma nrows_matmul: "matmul A B = Inr C \<Longrightarrow> nrows C = nrows A"
  by (auto simp: matmul_def split: if_splits)

lemma nrows_madd: "madd A B = Inr C \<Longrightarrow> nrows A = nrows B \<Longrightarrow> nrows C = nrows A"
  by (auto simp: madd_def bdim_def split: option.splits if_splits)

lemma flipped_own_term:
  "nrows X = n \<Longrightarrow> flipped f n (own_term ws (rowscale f X) k) (own_term ws X k)"
  unfolding own_term_def flipped_def
  by (cases "getw ws k") (auto simp: matmul_rowscale_left split: sum.splits dest: nrows_matmul)

lemma flipped_op_term:
  assumes "signs f" "nrows L = length f" "ncols L = length f" "nrows X = length f"
  shows "flipped f (length f) (op_term ws (colscale f (rowscale f L)) (rowscale f X) k)
           (op_term ws L X k)"
proof (cases "matmul L X")
  case (Inl e)
  then show ?thesis
    using assms by (simp add: op_term_def flipped_def matmul_conj_rowscale)
next
  case (Inr A)
  then have A: "nrows A = length f"
    using assms(2) by (auto dest: nrows_matmul)
  show ?thesis
    using Inr A assms
    by (cases "getw ws k")
       (auto simp: op_term_def flipped_def matmul_conj_rowscale matmul_rowscale_left
         split: sum.splits dest: nrows_matmul)
qed

lemma flipped_plus_term:
  assumes "flipped f n a' a" "flipped f n b' b"
  shows "flipped f n (plus_term a' b') (plus_term a b)"
  using assms
  by (cases a; cases b)
     (auto simp: flipped_def plus_term_def madd_rowscale split: sum.splits dest: nrows_madd)

lemma nrows_tanh_arr [simp]: "nrows (tanh_arr A) = nrows A"
  by (simp add: tanh_arr_def map_mat_def)

lemma flipped_tanh:
  assumes "signs f" "flipped f (length f) r' r"
  shows "flipped f (length f) (ebind r' (\<lambda>s. Inr (tanh_arr s))) (ebind r (\<lambda>s. Inr (tanh_arr s)))"
  using assms
  by (cases r) (auto simp: flipped_def tanh_rowscale)

lemma flipped_scone_layer:
  assumes "signs f" "nrows L = length f" "ncols L = length f"
    "nrows U = length f" "ncols U = length f" "nrows X = length f"
  shows "flipped f (length f)
           (scone_layer ws (colscale f (rowscale f L)) (colscale f (rowscale f U)) i (rowscale f X))
           (scone_layer ws L U i X)"
  unfolding scone_layer_def
  by (intro flipped_tanh flipped_plus_term flipped_own_term flipped_op_term assms)

lemma flipped_for_loop:
  assumes step: "\<And>i X. nrows X = n \<Longrightarrow> flipped f n (body' i (rowscale f X)) (body i X)"
    and "nrows X = n"
  shows "flipped f n (for_loop is body' (rowscale f X)) (for_loop is body X)"
  using assms(2)
proof (induction "is" arbitrary: X)
  case Nil
  then show ?case by (simp add: flipped_def)
next
  case (Cons i "is")
  show ?case
  proof (cases "body i X")
    case (Inl e)
    with step [OF Cons.prems, of i] show ?thesis
      by (simp add: flipped_def)
  next
    case (Inr Y)
    with step [OF Cons.prems, of i]
    have "nrows Y = n" "body' i (rowscale f X) = Inr (rowscale f Y)"
      by (simp_all add: flipped_def)
    with Cons.IH [of Y] Inr show ?thesis
      by simp
  qed
qed

lemma take_rows_colscale:
  "take_rows (colscale f B) Nv = map_sum id (colscale f) (take_rows B Nv)"
proof (cases "nrows B = 0")
  case True
  then show ?thesis
    by (auto simp: take_rows_def colscale_def intro!: mk_cong)
next
  case False
  then have "jax_index (nrows B) v < nrows B" for v
    by (auto simp: jax_index_def Let_def)
  with False show ?thesis
    by (auto simp: take_rows_def colscale_def [of f "mk _ _ _"] intro!: mk_cong)
qed

lemma Bconds_func_colscale:
  "Bconds_func nbrs (colscale f B) n = map_sum id (colscale f) (Bconds_func nbrs B n)"
  by (cases "jax_row nbrs n") (simp_all add: Bconds_func_def take_rows_colscale)

lemma readout_flipped:
  assumes "signs f" "nrows X = length f"
  shows "readout ws (Bconds_func nbrs (colscale f B)) n (rowscale f X)
       = readout ws (Bconds_func nbrs B) n X"
  unfolding readout_def Bconds_func_colscale
  by (cases "Bconds_func nbrs B n") (simp_all add: matmul_colscale_rowscale assms)

lemma example_colscale:
  assumes "i < nrows X"
  shows "example (colscale f X) i = rowscale f (example X i)"
  using assms by (auto simp: example_def rowscale_def mult.commute intro!: mk_cong)

lemma scone_func_rowscale:
  assumes "signs f"
    and "nrows L = length f" "ncols L = length f"
    and "nrows U = length f" "ncols U = length f"
    and "nrows flow = length f"
  shows "scone_func ws (colscale f (rowscale f L)) (colscale f (rowscale f U))
           (Bconds_func nbrs (colscale f B)) n (rowscale f flow)
       = scone_func ws L U (Bconds_func nbrs B) n flow"
proof (cases "(int (length ws) - 1) mod 3 = 0")
  case False
  then show ?thesis by (simp add: scone_func_def)
next
  case True
  let ?n = "length f"
  let ?L = "colscale f (rowscale f L)"
  let ?U = "colscale f (rowscale f U)"
  let ?idx = "[0..<nat ((int (length ws) - 1) div 3)]"
  have loop: "flipped f ?n (for_loop ?idx (scone_layer ws ?L ?U) (rowscale f flow))
      (for_loop ?idx (scone_layer ws L U) flow)"
  proof (rule flipped_for_loop [where n = ?n, OF _ assms(6)])
    fix j Y
    assume "nrows Y = ?n"
    then show "flipped f ?n (scone_layer ws ?L ?U j (rowscale f Y)) (scone_layer ws L U j Y)"
      using assms by (intro flipped_scone_layer) simp_all
  qed
  show ?thesis
  proof (cases "for_loop ?idx (scone_layer ws L U) flow")
    case (Inl e)
    with loop True show ?thesis
      by (simp add: scone_func_def flipped_def)
  next
    case (Inr Y)
    with loop have "nrows Y = ?n"
      and "for_loop ?idx (scone_layer ws ?L ?U) (rowscale f flow) = Inr (rowscale f Y)"
      by (simp_all add: flipped_def)
    with Inr True show ?thesis
      by (simp add: scone_func_def readout_flipped assms(1))
  qed
qed

text \<open>
  C1. Orientation-flip invariance of \<^verbatim>\<open>scone_func\<close>: for every vector of signs
  \<open>flips\<close> with \<open>F = diag flips\<close>, every weight list, every last node and every
  example \<open>i\<close>, the forward pass on the conjugated operands \<open>F S_lower F\<close>,
  \<open>F S_upper F\<close>, the selector over \<open>B F\<close> and the flow of \<open>X F\<close> returns exactly
  what it returns on \<open>S_lower\<close>, \<open>S_upper\<close>, the selector over \<open>B\<close> and the flow of
  \<open>X\<close>: the same log-probabilities, or the same error.
\<close>

theorem scone_flip_invariance:
  assumes "signs flips"
    and "nrows S_lower = length flips" "ncols S_lower = length flips"
    and "nrows S_upper = length flips" "ncols S_upper = length flips"
    and "ncols B = length flips" "ncols X = length flips"
    and "i < nrows X"
  shows "\<exists>S_lower' S_upper' B' X'.
           flip_conj (diag flips) S_lower = Inr S_lower'
         \<and> flip_conj (diag flips) S_upper = Inr S_upper'
         \<and> matmul B (diag flips) = Inr B'
         \<and> matmul X (diag flips) = Inr X'
         \<and> scone_func weights S_lower' S_upper' (Bconds_func nbrs B') last_node (example X' i)
           = scone_func weights S_lower S_upper (Bconds_func nbrs B) last_node (example X i)"
proof -
  have "nrows (example X i) = length flips"
    using assms by (simp add: example_def)
  then have "scone_func weights (colscale flips (rowscale flips S_lower))
          (colscale flips (rowscale flips S_upper)) (Bconds_func nbrs (colscale flips B)) last_node
          (rowscale flips (example X i))
      = scone_func weights S_lower S_upper (Bconds_func nbrs B) last_node (example X i)"
    using assms by (intro scone_func_rowscale) simp_all
  then show ?thesis
    using assms
    by (simp add: flip_conj_diag matmul_diag_right example_colscale)
qed

theorem scone_flip_invariance_witness:
  "signs [1, - 1] \<and>
   (\<exists>S_lower' S_upper' B' X'.
      flip_conj (diag [1, - 1]) (Mat 2 2 [[2, - 1], [- 1, 2]]) = Inr S_lower'
    \<and> flip_conj (diag [1, - 1]) (Mat 2 2 [[0, 0], [0, 0]]) = Inr S_upper'
    \<and> matmul (Mat 4 2 [[- 1, 0], [1, - 1], [0, 1], [0, 0]]) (diag [1, - 1]) = Inr B'
    \<and> matmul (Mat 1 2 [[1, 0]]) (diag [1, - 1]) = Inr X'
    \<and> scone_func [Mat 1 1 [[1]], Mat 1 1 [[1]], Mat 1 1 [[1]], Mat 1 1 [[1]]]
          S_lower' S_upper' (Bconds_func [[1, - 1], [0, 2], [1, - 1]] B') 1 (example X' 0)
      = scone_func [Mat 1 1 [[1]], Mat 1 1 [[1]], Mat 1 1 [[1]], Mat 1 1 [[1]]]
          (Mat 2 2 [[2, - 1], [- 1, 2]]) (Mat 2 2 [[0, 0], [0, 0]])
          (Bconds_func [[1, - 1], [0, 2], [1, - 1]] (Mat 4 2 [[- 1, 0], [1, - 1], [0, 1], [0, 0]]))
          1 (example (Mat 1 2 [[1, 0]]) 0))"
proof -
  have s: "signs [1, - 1]"
    by (simp add: signs_def)
  from scone_flip_invariance [OF s, of "Mat 2 2 [[2, - 1], [- 1, 2]]" "Mat 2 2 [[0, 0], [0, 0]]"
      "Mat 4 2 [[- 1, 0], [1, - 1], [0, 1], [0, 0]]" "Mat 1 2 [[1, 0]]" 0]
  show ?thesis
    using s by simp
qed

subsection \<open>Log-probabilities\<close>


lemma nrows_log_softmax [simp]: "nrows (log_softmax A) = nrows A"
  and ncols_log_softmax [simp]: "ncols (log_softmax A) = ncols A"
  by (simp_all add: log_softmax_def sub_scalar_def map_mat_def)














lemmas ev = matmul_def mk_def ent_def madd_def bdim_def bidx_def map_mat_def tanh_arr_def
  own_term_def op_term_def plus_term_def getw_def readout_def log_softmax_def sub_scalar_def
  logsumexp_def sumexp_def scone_layer_def scone_func_def Bconds_func_def jax_row_def
  jax_index_def take_rows_def example_def eval_nat_numeral







subsection \<open>Validation of the weight count\<close>

text \<open>
  C3, as amended. Every forward pass validates the weight count before it evaluates anything
  else, so a failed validation is an \<open>AssertionError\<close> whatever the operands are (also for
  operands whose shapes no product accepts). The size of a layer's weight group counts the
  layer's own weight with the operator weights: it is 3 for \<^verbatim>\<open>scone_func\<close>, 4 for
  \<^verbatim>\<open>ebli_func\<close> and the keyword-dependent \<open>1 + k1 + k2\<close> for
  \<^verbatim>\<open>scnn_func_2/3/4\<close>, each validated against \<open>len(weights) - 1\<close>; and 7 for
  \<^verbatim>\<open>bunch_func\<close>, validated against \<open>len(weights)\<close>, as it has no terminal
  weight. The quotient is the number of layers the loop runs.
\<close>

theorem weight_count_validation:
  "((int (length ws) - 1) mod 3 \<noteq> 0 \<longrightarrow> scone_func ws A1 A2 Bc n flow = Inl AssertionError)
 \<and> ((int (length ws) - 1) mod 3 = 0 \<longrightarrow>
      scone_func ws A1 A2 Bc n flow
      = ebind (for_loop [0..<nat ((int (length ws) - 1) div 3)] (scone_layer ws A1 A2) flow)
          (readout ws Bc n))
 \<and> ((int (length ws) - 1) mod 4 \<noteq> 0 \<longrightarrow> ebli_func ws A1 A2 A3 Bc n flow = Inl AssertionError)
 \<and> ((int (length ws) - 1) mod 4 = 0 \<longrightarrow>
      ebli_func ws A1 A2 A3 Bc n flow
      = ebind (for_loop [0..<nat ((int (length ws) - 1) div 4)] (ebli_layer ws A1 A2 A3) flow)
          (readout ws Bc n))
 \<and> (1 + k1 + k2 \<noteq> 0 \<and> (int (length ws) - 1) mod (1 + k1 + k2) \<noteq> 0 \<longrightarrow>
        scnn_func_2 ws A1 A2 A3 A4 Bc n flow k1 k2 = Inl AssertionError
      \<and> scnn_func_3 ws A1 A2 A3 A4 A5 A6 Bc n flow k1 k2 = Inl AssertionError
      \<and> scnn_func_4 ws A1 A2 A3 A4 A5 A6 A7 A8 Bc n flow k1 k2 = Inl AssertionError)
 \<and> (1 + k1 + k2 \<noteq> 0 \<and> (int (length ws) - 1) mod (1 + k1 + k2) = 0 \<longrightarrow>
        scnn_func_2 ws A1 A2 A3 A4 Bc n flow k1 k2
        = ebind (for_loop [0..<nat ((int (length ws) - 1) div (1 + k1 + k2))]
                   (scnn2_layer ws A1 A2 A3 A4 (1 + k1 + k2)) flow) (readout ws Bc n)
      \<and> scnn_func_3 ws A1 A2 A3 A4 A5 A6 Bc n flow k1 k2
        = ebind (for_loop [0..<nat ((int (length ws) - 1) div (1 + k1 + k2))]
                   (scnn3_layer ws A1 A2 A3 A4 A5 A6 (1 + k1 + k2)) flow) (readout ws Bc n)
      \<and> scnn_func_4 ws A1 A2 A3 A4 A5 A6 A7 A8 Bc n flow k1 k2
        = ebind (for_loop [0..<nat ((int (length ws) - 1) div (1 + k1 + k2))]
                   (scnn4_layer ws A1 A2 A3 A4 A5 A6 A7 A8 (1 + k1 + k2)) flow) (readout ws Bc n))
 \<and> (int (length ws) mod 7 \<noteq> 0 \<longrightarrow>
        bunch_func ws A1 A2 A3 A4 A5 A6 A7 nbrs n flow = Inl AssertionError)
 \<and> (int (length ws) mod 7 = 0 \<longrightarrow>
        bunch_func ws A1 A2 A3 A4 A5 A6 A7 nbrs n flow
        = ebind (for_loop [0..<nat (int (length ws) div 7)]
                   (bunch_layer ws A1 A2 A3 A4 A5 A6 A7)
                   (zeros (ncols A1) 1, flow, zeros (ncols A7) 1)) (bunch_readout nbrs n))"
  by (auto simp: scone_func_def ebli_func_def scnn_func_2_def scnn_func_3_def scnn_func_4_def
      bunch_func_def Let_def)

lemma scnn_group_size_zero:
  assumes "1 + k1 + k2 = 0"
  shows "scnn_func_2 ws A1 A2 A3 A4 Bc n flow k1 k2 = Inl ZeroDivisionError"
    and "scnn_func_3 ws A1 A2 A3 A4 A5 A6 Bc n flow k1 k2 = Inl ZeroDivisionError"
    and "scnn_func_4 ws A1 A2 A3 A4 A5 A6 A7 A8 Bc n flow k1 k2 = Inl ZeroDivisionError"
  using assms by (simp_all add: scnn_func_2_def scnn_func_3_def scnn_func_4_def)

theorem weight_count_validation_witness:
  "scone_func [Mat 1 1 [[0]], Mat 1 1 [[0]], Mat 1 1 [[0]]] (Mat 1 1 [[0]]) (Mat 1 1 [[0]])
     (\<lambda>n. Inr (Mat 1 1 [[0]])) 0 (Mat 1 1 [[0]]) = Inl AssertionError
 \<and> ebli_func [Mat 1 1 [[0]], Mat 1 1 [[0]], Mat 1 1 [[0]]] (Mat 1 1 [[0]]) (Mat 1 1 [[0]])
     (Mat 1 1 [[0]]) (\<lambda>n. Inr (Mat 1 1 [[0]])) 0 (Mat 1 1 [[0]]) = Inl AssertionError
 \<and> scnn_func_2 [Mat 1 1 [[0]], Mat 1 1 [[0]], Mat 1 1 [[0]]] (Mat 1 1 [[0]]) (Mat 1 1 [[0]])
     (Mat 1 1 [[0]]) (Mat 1 1 [[0]]) (\<lambda>n. Inr (Mat 1 1 [[0]])) 0 (Mat 1 1 [[0]]) 2 2
     = Inl AssertionError
 \<and> bunch_func [Mat 1 1 [[0]], Mat 1 1 [[0]], Mat 1 1 [[0]]] (Mat 1 1 [[0]]) (Mat 1 1 [[0]])
     (Mat 1 1 [[0]]) (Mat 1 1 [[0]]) (Mat 1 1 [[0]]) (Mat 1 1 [[0]]) (Mat 1 1 [[0]]) [[0]] 0
     (Mat 1 1 [[0]]) = Inl AssertionError
 \<and> scone_func [Mat 1 1 [[0]]] (Mat 1 1 [[0]]) (Mat 1 1 [[0]])
     (\<lambda>n. Inr (Mat 1 1 [[0]])) 0 (Mat 1 1 [[0]])
     = readout [Mat 1 1 [[0]]] (\<lambda>n. Inr (Mat 1 1 [[0]])) 0 (Mat 1 1 [[0]])"
  using weight_count_validation [where ws = "[Mat 1 1 [[0]], Mat 1 1 [[0]], Mat 1 1 [[0]]]"
      and ?A1.0 = "Mat 1 1 [[0]]" and ?A2.0 = "Mat 1 1 [[0]]" and ?A3.0 = "Mat 1 1 [[0]]"
      and ?A4.0 = "Mat 1 1 [[0]]" and ?A5.0 = "Mat 1 1 [[0]]" and ?A6.0 = "Mat 1 1 [[0]]"
      and ?A7.0 = "Mat 1 1 [[0]]" and Bc = "\<lambda>n. Inr (Mat 1 1 [[0]])" and n = 0
      and flow = "Mat 1 1 [[0]]" and ?k1.0 = 2 and ?k2.0 = 2 and nbrs = "[[0]]"]
    weight_count_validation [where ws = "[Mat 1 1 [[0]]]"
      and ?A1.0 = "Mat 1 1 [[0]]" and ?A2.0 = "Mat 1 1 [[0]]"
      and Bc = "\<lambda>n. Inr (Mat 1 1 [[0]])" and n = 0 and flow = "Mat 1 1 [[0]]"]
  by simp

lemma path_graph_scone_func_one_layer:
  "scone_func [Mat 1 1 [[0]], Mat 1 1 [[0]], Mat 1 1 [[0]], Mat 1 1 [[0]]]
     (Mat 2 2 [[2, - 1], [- 1, 2]]) (Mat 2 2 [[0, 0], [0, 0]])
     (Bconds_func [[1, - 1], [0, 2], [1, - 1]] (Mat 4 2 [[- 1, 0], [1, - 1], [0, 1], [0, 0]])) 0
     (example (Mat 1 2 [[1, 0]]) 0)
   = Inr (Mat 2 1 [[- ln 2], [- ln 2]])"
  by (simp add: ev)

text \<open>
  The claim as stated divides by the operator count \<open>k\<close>. For \<^verbatim>\<open>scone_func\<close>
  (\<open>k = 2\<close>) four weights are accepted and run one layer, though \<open>4 - 1\<close> is not
  divisible by 2, and three weights are rejected, though \<open>3 - 1\<close> is.
\<close>

theorem weight_count_counterexample:
  "(int (length [Mat 1 1 [[0]], Mat 1 1 [[0]], Mat 1 1 [[0]], Mat 1 1 [[0::real]]]) - 1) mod 2 \<noteq> 0
 \<and> scone_func [Mat 1 1 [[0]], Mat 1 1 [[0]], Mat 1 1 [[0]], Mat 1 1 [[0]]]
     (Mat 2 2 [[2, - 1], [- 1, 2]]) (Mat 2 2 [[0, 0], [0, 0]])
     (Bconds_func [[1, - 1], [0, 2], [1, - 1]] (Mat 4 2 [[- 1, 0], [1, - 1], [0, 1], [0, 0]])) 0
     (example (Mat 1 2 [[1, 0]]) 0)
   = Inr (Mat 2 1 [[- ln 2], [- ln 2]])
 \<and> (int (length [Mat 1 1 [[0]], Mat 1 1 [[0]], Mat 1 1 [[0::real]]]) - 1) mod 2 = 0
 \<and> scone_func [Mat 1 1 [[0]], Mat 1 1 [[0]], Mat 1 1 [[0]]]
     (Mat 2 2 [[2, - 1], [- 1, 2]]) (Mat 2 2 [[0, 0], [0, 0]])
     (Bconds_func [[1, - 1], [0, 2], [1, - 1]] (Mat 4 2 [[- 1, 0], [1, - 1], [0, 1], [0, 0]])) 0
     (example (Mat 1 2 [[1, 0]]) 0)
   = Inl AssertionError"
  using path_graph_scone_func_one_layer by (simp add: scone_func_def)

subsection \<open>The layer of the order-4 family\<close>

text \<open>
  Every layer of \<^verbatim>\<open>scone_func\<close>, \<^verbatim>\<open>ebli_func\<close>,
  \<^verbatim>\<open>scnn_func_2\<close> and \<^verbatim>\<open>scnn_func_3\<close> is the layer of the
  specification over the function's own operator list. The layer of
  \<^verbatim>\<open>scnn_func_4\<close> is the layer of the specification over a list whose fourth
  operator is \<open>S4_upper\<close>: \<open>S4_lower\<close> is not read, and \<open>S4_upper\<close> is multiplied by two
  weights.
\<close>

lemma spec_layer_scone:
  "scone_layer ws S_lower S_upper i cur = spec_layer ws [S_lower, S_upper] 3 i cur"
  by (simp add: scone_layer_def spec_layer_def add.assoc)

lemma spec_layer_ebli:
  "ebli_layer ws S S2 S3 i cur = spec_layer ws [S, S2, S3] 4 i cur"
  by (simp add: ebli_layer_def spec_layer_def add.assoc)

lemma spec_layer_scnn2:
  "scnn2_layer ws S_lower S2_lower S_upper S2_upper n_k i cur
   = spec_layer ws [S_lower, S2_lower, S_upper, S2_upper] n_k i cur"
  by (simp add: scnn2_layer_def spec_layer_def add.assoc)

lemma spec_layer_scnn3:
  "scnn3_layer ws S_lower S2_lower S3_lower S_upper S2_upper S3_upper n_k i cur
   = spec_layer ws [S_lower, S2_lower, S3_lower, S_upper, S2_upper, S3_upper] n_k i cur"
  by (simp add: scnn3_layer_def spec_layer_def add.assoc)

lemma spec_layer_scnn4:
  "scnn4_layer ws S_lower S2_lower S3_lower S4_lower S_upper S2_upper S3_upper S4_upper n_k i cur
   = spec_layer ws [S_lower, S2_lower, S3_lower, S4_upper, S_upper, S2_upper, S3_upper, S4_upper]
       n_k i cur"
  by (simp add: scnn4_layer_def spec_layer_def add.assoc)

text \<open>
  C2. The claim asks for the layer of the specification over
  \<open>[lower, lower\<^sup>2, lower\<^sup>3, lower\<^sup>4, upper, upper\<^sup>2, upper\<^sup>3, upper\<^sup>4]\<close>. With one
  edge, \<open>n_k = 9\<close>, the weight of index 4 equal to 1 and every other weight 0,
  \<open>S4_lower = 1\<close> and every other operator 0, and the signal 1, line 237 multiplies
  \<open>S4_upper = 0\<close> and the layer returns 0, where the layer of the claim returns
  \<open>tanh 1\<close>.
\<close>

theorem scnn4_layer_fourth_lower_power:
  "scnn4_layer
     [Mat 1 1 [[0]], Mat 1 1 [[0]], Mat 1 1 [[0]], Mat 1 1 [[0]], Mat 1 1 [[1]],
      Mat 1 1 [[0]], Mat 1 1 [[0]], Mat 1 1 [[0]], Mat 1 1 [[0]], Mat 1 1 [[0]]]
     (Mat 1 1 [[0]]) (Mat 1 1 [[0]]) (Mat 1 1 [[0]]) (Mat 1 1 [[1]])
     (Mat 1 1 [[0]]) (Mat 1 1 [[0]]) (Mat 1 1 [[0]]) (Mat 1 1 [[0]]) 9 0 (Mat 1 1 [[1]])
   = Inr (Mat 1 1 [[0]])
 \<and> spec_layer
     [Mat 1 1 [[0]], Mat 1 1 [[0]], Mat 1 1 [[0]], Mat 1 1 [[0]], Mat 1 1 [[1]],
      Mat 1 1 [[0]], Mat 1 1 [[0]], Mat 1 1 [[0]], Mat 1 1 [[0]], Mat 1 1 [[0]]]
     [Mat 1 1 [[0]], Mat 1 1 [[0]], Mat 1 1 [[0]], Mat 1 1 [[1]],
      Mat 1 1 [[0]], Mat 1 1 [[0]], Mat 1 1 [[0]], Mat 1 1 [[0]]] 9 0 (Mat 1 1 [[1]])
   = Inr (Mat 1 1 [[tanh 1]])
 \<and> tanh 1 \<noteq> (0::real)"
  by (simp add: scnn4_layer_def spec_layer_def ev)

subsection \<open>The weight group of the order-3 and order-4 families\<close>

lemma benign_matmul: "benign len (matmul A B)"
  by (simp add: matmul_def benign_def)

lemma benign_madd: "benign len (madd A B)"
  by (simp add: madd_def benign_def split: option.splits)

lemma benign_getw: "0 \<le> k \<Longrightarrow> benign (length ws) (getw ws k)"
  by (auto simp: getw_def benign_def)

lemma benign_ebind:
  "benign len m \<Longrightarrow> (\<And>x. benign len (f x)) \<Longrightarrow> benign len (ebind m f)"
  by (cases m) (auto simp: benign_def)

lemma benign_own_term: "0 \<le> k \<Longrightarrow> benign (length ws) (own_term ws cur k)"
  unfolding own_term_def by (intro benign_ebind benign_getw benign_matmul)

lemma benign_op_term: "0 \<le> k \<Longrightarrow> benign (length ws) (op_term ws S cur k)"
  unfolding op_term_def by (intro benign_ebind benign_getw benign_matmul)

lemma benign_plus_term:
  "benign len a \<Longrightarrow> benign len b \<Longrightarrow> benign len (plus_term a b)"
  unfolding plus_term_def by (intro benign_ebind benign_madd)

lemma isl_op_term: "int (length ws) \<le> k \<Longrightarrow> isl (op_term ws S cur k)"
  by (cases "matmul S cur") (auto simp: op_term_def getw_def)

lemma isl_plus_term_right: "isl b \<Longrightarrow> isl (plus_term a b)"
  by (cases a; cases b) (auto simp: plus_term_def)

lemma isl_plus_term_left: "isl a \<Longrightarrow> isl (plus_term a b)"
  by (cases a) (auto simp: plus_term_def)

lemma isl_ebind: "isl m \<Longrightarrow> isl (ebind m f)"
  by (cases m) auto

lemma isl_for_loop:
  assumes "\<And>s. isl (body i s)" "i \<in> set is"
  shows "isl (for_loop is body s)"
  using assms(2)
proof (induction "is" arbitrary: s)
  case Nil
  then show ?case by simp
next
  case (Cons j js)
  show ?case
  proof (cases "body j s")
    case (Inl e)
    then show ?thesis by simp
  next
    case (Inr t)
    with assms(1) [of s] have "j \<noteq> i" by auto
    with Cons.prems have "i \<in> set js" by simp
    with Cons.IH [of t] Inr show ?thesis by simp
  qed
qed

lemma benign_for_loop:
  assumes "\<And>i s. benign len (body i s)"
  shows "benign len (for_loop is body s)"
proof (induction "is" arbitrary: s)
  case Nil
  then show ?case by (simp add: benign_def)
next
  case (Cons j js)
  then show ?case
    by (simp add: benign_ebind assms)
qed

lemma scnn3_layer_benign:
  "0 \<le> n_k \<Longrightarrow> benign (length ws) (scnn3_layer ws A1 A2 A3 A4 A5 A6 n_k i cur)"
  unfolding scnn3_layer_def
  by (intro benign_ebind benign_plus_term benign_own_term benign_op_term)
     (simp_all add: benign_def)

lemma scnn4_layer_benign:
  "0 \<le> n_k \<Longrightarrow> benign (length ws) (scnn4_layer ws A1 A2 A3 A4 A5 A6 A7 A8 n_k i cur)"
  unfolding scnn4_layer_def
  by (intro benign_ebind benign_plus_term benign_own_term benign_op_term)
     (simp_all add: benign_def)

lemma scnn3_layer_fails:
  "int (length ws) \<le> int i * n_k + 6 \<Longrightarrow> isl (scnn3_layer ws A1 A2 A3 A4 A5 A6 n_k i cur)"
  unfolding scnn3_layer_def
  by (intro isl_ebind isl_plus_term_right isl_op_term)

lemma scnn4_layer_fails:
  "int (length ws) \<le> int i * n_k + 6 \<Longrightarrow> isl (scnn4_layer ws A1 A2 A3 A4 A5 A6 A7 A8 n_k i cur)"
  unfolding scnn4_layer_def
  by (rule isl_ebind, rule isl_plus_term_left, rule isl_plus_term_left, rule isl_plus_term_right,
      rule isl_op_term)

lemma benign_isl: "benign len r \<Longrightarrow> isl r \<Longrightarrow>
    r = Inl ShapeError \<or> (\<exists>k. r = Inl (IndexError k) \<and> int len \<le> k)"
  by (cases r) (auto simp: benign_def split: error.splits)

text \<open>
  C7. \<^verbatim>\<open>scnn_func_3\<close> and \<^verbatim>\<open>scnn_func_4\<close> validate and count layers
  with the group size \<open>1 + k1 + k2\<close> of the default hyperparameters, which is 5, while a
  layer reads the weights up to index \<open>i*5 + 6\<close> and \<open>i*5 + 8\<close>. So the validation does
  not keep the reads in bounds: for every weight list that passes it with at least one
  layer (six weights, say), and for all operands, the call ends in an error that is a
  shape error of an earlier product or the read of a weight index at or beyond the length
  of the list.
\<close>

theorem scnn_weight_group_gap:
  assumes "(int (length ws) - 1) mod (1 + k1_scnn HYPERPARAMS + k2_scnn HYPERPARAMS) = 0"
    and "1 < length ws"
    and "r = scnn_func_3 ws A1 A2 A3 A4 A5 A6 Bc n flow (k1_scnn HYPERPARAMS) (k2_scnn HYPERPARAMS)
       \<or> r = scnn_func_4 ws A1 A2 A3 A4 A5 A6 A7 A8 Bc n flow
               (k1_scnn HYPERPARAMS) (k2_scnn HYPERPARAMS)"
  shows "r = Inl ShapeError
       \<or> (\<exists>k. r = Inl (IndexError k) \<and> int (length ws) \<le> k)"
proof -
  let ?n = "nat ((int (length ws) - 1) div 5)"
  from assms(1) have m: "(int (length ws) - 1) mod 5 = 0"
    by (simp add: HYPERPARAMS_def)
  then obtain q where q: "int (length ws) - 1 = 5 * q"
    by (auto simp: mod_eq_0_iff_dvd)
  with assms(2) have q1: "1 \<le> q"
    by linarith
  from q have n: "?n = nat q"
    by simp
  from q1 have last_in: "?n - 1 \<in> set [0..<?n]"
    unfolding n by simp
  have bound: "int (length ws) \<le> int (?n - 1) * 5 + 6"
    unfolding n using q q1 by (simp add: of_nat_diff)
  have l3: "isl (for_loop [0..<?n] (scnn3_layer ws A1 A2 A3 A4 A5 A6 5) flow)"
    by (rule isl_for_loop [where i = "?n - 1"]) (simp_all only: scnn3_layer_fails [OF bound] last_in)
  have l4: "isl (for_loop [0..<?n] (scnn4_layer ws A1 A2 A3 A4 A5 A6 A7 A8 5) flow)"
    by (rule isl_for_loop [where i = "?n - 1"]) (simp_all only: scnn4_layer_fails [OF bound] last_in)
  have b3: "benign (length ws) (for_loop [0..<?n] (scnn3_layer ws A1 A2 A3 A4 A5 A6 5) flow)"
    by (rule benign_for_loop) (simp add: scnn3_layer_benign)
  have b4: "benign (length ws) (for_loop [0..<?n] (scnn4_layer ws A1 A2 A3 A4 A5 A6 A7 A8 5) flow)"
    by (rule benign_for_loop) (simp add: scnn4_layer_benign)
  have "isl r \<and> benign (length ws) r"
  proof -
    from assms(3) show ?thesis
    proof
      assume "r = scnn_func_3 ws A1 A2 A3 A4 A5 A6 Bc n flow (k1_scnn HYPERPARAMS) (k2_scnn HYPERPARAMS)"
      then have "r = ebind (for_loop [0..<?n] (scnn3_layer ws A1 A2 A3 A4 A5 A6 5) flow) (readout ws Bc n)"
        using m by (simp add: scnn_func_3_def HYPERPARAMS_def)
      with l3 b3 show ?thesis
        by (cases "for_loop [0..<?n] (scnn3_layer ws A1 A2 A3 A4 A5 A6 5) flow") auto
    next
      assume "r = scnn_func_4 ws A1 A2 A3 A4 A5 A6 A7 A8 Bc n flow (k1_scnn HYPERPARAMS) (k2_scnn HYPERPARAMS)"
      then have "r = ebind (for_loop [0..<?n] (scnn4_layer ws A1 A2 A3 A4 A5 A6 A7 A8 5) flow) (readout ws Bc n)"
        using m by (simp add: scnn_func_4_def HYPERPARAMS_def)
      with l4 b4 show ?thesis
        by (cases "for_loop [0..<?n] (scnn4_layer ws A1 A2 A3 A4 A5 A6 A7 A8 5) flow") auto
    qed
  qed
  then show ?thesis
    using benign_isl [of "length ws" r] by auto
qed

lemma six_weights_scnn_func_3:
  "scnn_func_3
     [Mat 1 1 [[0]], Mat 1 1 [[0]], Mat 1 1 [[0]], Mat 1 1 [[0]], Mat 1 1 [[0]], Mat 1 1 [[0]]]
     (Mat 1 1 [[0]]) (Mat 1 1 [[0]]) (Mat 1 1 [[0]]) (Mat 1 1 [[0]]) (Mat 1 1 [[0]])
     (Mat 1 1 [[0]]) (\<lambda>n. Inr (Mat 1 1 [[0]])) 0 (Mat 1 1 [[0]])
     (k1_scnn HYPERPARAMS) (k2_scnn HYPERPARAMS)
   = Inl (IndexError 6)"
  by (simp add: scnn_func_3_def scnn3_layer_def HYPERPARAMS_def ev)

lemma six_weights_scnn_func_4:
  "scnn_func_4
     [Mat 1 1 [[0]], Mat 1 1 [[0]], Mat 1 1 [[0]], Mat 1 1 [[0]], Mat 1 1 [[0]], Mat 1 1 [[0]]]
     (Mat 1 1 [[0]]) (Mat 1 1 [[0]]) (Mat 1 1 [[0]]) (Mat 1 1 [[0]]) (Mat 1 1 [[0]])
     (Mat 1 1 [[0]]) (Mat 1 1 [[0]]) (Mat 1 1 [[0]]) (\<lambda>n. Inr (Mat 1 1 [[0]])) 0 (Mat 1 1 [[0]])
     (k1_scnn HYPERPARAMS) (k2_scnn HYPERPARAMS)
   = Inl (IndexError 6)"
  by (simp add: scnn_func_4_def scnn4_layer_def HYPERPARAMS_def ev)

theorem scnn_weight_group_gap_witness:
  "(int (length [Mat 1 1 [[0]], Mat 1 1 [[0]], Mat 1 1 [[0]], Mat 1 1 [[0]], Mat 1 1 [[0]],
       Mat 1 1 [[0::real]]]) - 1) mod (1 + k1_scnn HYPERPARAMS + k2_scnn HYPERPARAMS) = 0
 \<and> scnn_func_3
     [Mat 1 1 [[0]], Mat 1 1 [[0]], Mat 1 1 [[0]], Mat 1 1 [[0]], Mat 1 1 [[0]], Mat 1 1 [[0]]]
     (Mat 1 1 [[0]]) (Mat 1 1 [[0]]) (Mat 1 1 [[0]]) (Mat 1 1 [[0]]) (Mat 1 1 [[0]])
     (Mat 1 1 [[0]]) (\<lambda>n. Inr (Mat 1 1 [[0]])) 0 (Mat 1 1 [[0]])
     (k1_scnn HYPERPARAMS) (k2_scnn HYPERPARAMS)
   = Inl (IndexError 6)
 \<and> scnn_func_4
     [Mat 1 1 [[0]], Mat 1 1 [[0]], Mat 1 1 [[0]], Mat 1 1 [[0]], Mat 1 1 [[0]], Mat 1 1 [[0]]]
     (Mat 1 1 [[0]]) (Mat 1 1 [[0]]) (Mat 1 1 [[0]]) (Mat 1 1 [[0]]) (Mat 1 1 [[0]])
     (Mat 1 1 [[0]]) (Mat 1 1 [[0]]) (Mat 1 1 [[0]]) (\<lambda>n. Inr (Mat 1 1 [[0]])) 0 (Mat 1 1 [[0]])
     (k1_scnn HYPERPARAMS) (k2_scnn HYPERPARAMS)
   = Inl (IndexError 6)
 \<and> getw [Mat 1 1 [[0]], Mat 1 1 [[0]], Mat 1 1 [[0]], Mat 1 1 [[0]], Mat 1 1 [[0]],
       Mat 1 1 [[0::real]]] 8 = Inl (IndexError 8)"
proof -
  let ?ws = "[Mat 1 1 [[0]], Mat 1 1 [[0]], Mat 1 1 [[0]], Mat 1 1 [[0]], Mat 1 1 [[0]],
       Mat 1 1 [[0::real]]]"
  have v: "(int (length ?ws) - 1) mod (1 + k1_scnn HYPERPARAMS + k2_scnn HYPERPARAMS) = 0"
    by (simp add: HYPERPARAMS_def)
  have l: "1 < length ?ws"
    by simp
  have "scnn_func_3 ?ws (Mat 1 1 [[0]]) (Mat 1 1 [[0]]) (Mat 1 1 [[0]]) (Mat 1 1 [[0]])
          (Mat 1 1 [[0]]) (Mat 1 1 [[0]]) (\<lambda>n. Inr (Mat 1 1 [[0]])) 0 (Mat 1 1 [[0]])
          (k1_scnn HYPERPARAMS) (k2_scnn HYPERPARAMS) = Inl ShapeError
      \<or> (\<exists>k. scnn_func_3 ?ws (Mat 1 1 [[0]]) (Mat 1 1 [[0]]) (Mat 1 1 [[0]]) (Mat 1 1 [[0]])
          (Mat 1 1 [[0]]) (Mat 1 1 [[0]]) (\<lambda>n. Inr (Mat 1 1 [[0]])) 0 (Mat 1 1 [[0]])
          (k1_scnn HYPERPARAMS) (k2_scnn HYPERPARAMS) = Inl (IndexError k)
            \<and> int (length ?ws) \<le> k)"
    by (rule scnn_weight_group_gap [OF v l disjI1 [OF refl]])
  then show ?thesis
    using v six_weights_scnn_func_3 six_weights_scnn_func_4 by (simp add: getw_def)
qed

subsection \<open>The base operators\<close>

lemma L1_lower_entries:
  "L1_lower B1 = Inr (mk (ncols B1) (ncols B1) (\<lambda>i j. \<Sum>k<nrows B1. ent B1 k i * ent B1 k j))"
  by (auto simp: L1_lower_def matmul_def transpose_mat_def sum_upt intro!: mk_cong)

lemma L1_upper_entries:
  "L1_upper B2 = Inr (mk (nrows B2) (nrows B2) (\<lambda>i j. \<Sum>k<ncols B2. ent B2 i k * ent B2 j k))"
  by (auto simp: L1_upper_def matmul_def transpose_mat_def sum_upt intro!: mk_cong)

lemma gram_symmetric:
  "transpose_mat (mk n n (\<lambda>i j. \<Sum>k<m. g k i * g k j)) = mk n n (\<lambda>i j. \<Sum>k<m. g k i * (g k j :: real))"
  by (auto simp: transpose_mat_def mult.commute intro!: mk_cong)

lemma gram_quad_form:
  "quad_form x (mk n n (\<lambda>i j. \<Sum>k<m. g k i * g k j)) = (\<Sum>k<m. (\<Sum>i<n. g k i * x ! i)\<^sup>2)"
proof -
  have "quad_form x (mk n n (\<lambda>i j. \<Sum>k<m. g k i * g k j))
      = (\<Sum>i<n. \<Sum>j<n. x ! i * (\<Sum>k<m. g k i * g k j) * x ! j)"
    by (simp add: quad_form_def sum_upt)
  also have "\<dots> = (\<Sum>i<n. \<Sum>j<n. \<Sum>k<m. (g k i * x ! i) * (g k j * x ! j))"
    by (simp add: sum_distrib_left sum_distrib_right mult_ac)
  also have "\<dots> = (\<Sum>i<n. \<Sum>k<m. \<Sum>j<n. (g k i * x ! i) * (g k j * x ! j))"
    by (simp add: sum.swap [of _ "{..<m}" "{..<n}"])
  also have "\<dots> = (\<Sum>k<m. \<Sum>i<n. \<Sum>j<n. (g k i * x ! i) * (g k j * x ! j))"
    by (rule sum.swap)
  also have "\<dots> = (\<Sum>k<m. (\<Sum>i<n. g k i * x ! i)\<^sup>2)"
    by (simp add: power2_eq_square sum_product)
  finally show ?thesis .
qed

lemma gram_psd: "0 \<le> quad_form x (mk n n (\<lambda>i j. \<Sum>k<m. g k i * (g k j :: real)))"
  unfolding gram_quad_form by (intro sum_nonneg) simp

text \<open>
  C8. For every boundary matrix, the base operators \<open>lower = B1\<^sup>T B1\<close> and
  \<open>upper = B2 B2\<^sup>T\<close> that \<^verbatim>\<open>data_setup\<close> computes (lines 336 and 337) are square,
  equal to their transposes, and positive semidefinite: the quadratic form of every vector
  is non-negative.
\<close>

theorem base_operators_symmetric_psd:
  "\<exists>lower upper.
      L1_lower B1 = Inr lower \<and> L1_upper B2 = Inr upper
    \<and> nrows lower = ncols B1 \<and> ncols lower = ncols B1
    \<and> nrows upper = nrows B2 \<and> ncols upper = nrows B2
    \<and> transpose_mat lower = lower \<and> transpose_mat upper = upper
    \<and> 0 \<le> quad_form x lower \<and> 0 \<le> quad_form y upper"
  unfolding L1_lower_entries L1_upper_entries
  using gram_symmetric [where n = "ncols B1" and m = "nrows B1" and g = "ent B1"]
    gram_symmetric [where n = "nrows B2" and m = "ncols B2" and g = "\<lambda>k i. ent B2 i k"]
    gram_psd [where x = x and n = "ncols B1" and m = "nrows B1" and g = "ent B1"]
    gram_psd [where x = y and n = "nrows B2" and m = "ncols B2" and g = "\<lambda>k i. ent B2 i k"]
  by simp

lemma triangle_L1_lower:
  "L1_lower (Mat 3 3 [[- 1, - 1, 0], [1, 0, - 1], [0, 1, 1]])
   = Inr (Mat 3 3 [[2, 1, - 1], [1, 2, 1], [- 1, 1, 2]])"
  by (simp add: L1_lower_def transpose_mat_def ev)

lemma triangle_L1_upper:
  "L1_upper (Mat 3 1 [[1], [- 1], [1]])
   = Inr (Mat 3 3 [[1, - 1, 1], [- 1, 1, - 1], [1, - 1, 1]])"
  by (simp add: L1_upper_def transpose_mat_def ev)

subsection \<open>The shift operators of a model family\<close>

lemma matmul_ok:
  "ncols A = nrows B \<Longrightarrow> \<exists>C. matmul A B = Inr C \<and> nrows C = nrows A \<and> ncols C = ncols B"
  by (simp add: matmul_def)

lemma mat_power_square:
  assumes "nrows A = n" "ncols A = n"
  shows "\<exists>P. mat_power A (Suc k) = Inr P \<and> nrows P = n \<and> ncols P = n"
proof (induction k)
  case 0
  with assms show ?case by simp
next
  case (Suc k)
  then obtain P where "mat_power A (Suc k) = Inr P" "nrows P = n" "ncols P = n"
    by blast
  with assms show ?case
    by (simp add: matmul_def)
qed

lemma pow2_mat_power: "pow2 L = mat_power L 2"
  by (simp add: pow2_def eval_nat_numeral)

lemma pow3_mat_power: "pow3 L = mat_power L 3"
  by (simp add: pow3_def eval_nat_numeral)

lemma pow4_mat_power: "pow4 L = mat_power L 4"
  by (simp add: pow4_def eval_nat_numeral)

lemma flip_conj_ok:
  assumes "nrows F = n" "ncols F = n" "nrows L = n" "ncols L = n"
  shows "\<exists>C. flip_conj F L = Inr C \<and> nrows C = n \<and> ncols C = n"
  using assms by (simp add: flip_conj_def matmul_def)

lemma base_operators:
  assumes "flip_edges hp \<noteq> 0 \<longrightarrow> nrows F = ncols B1 \<and> ncols F = ncols B1 \<and> nrows B2 = ncols B1"
  shows "\<exists>l0 u0 lower upper.
           L1_lower B1 = Inr l0 \<and> L1_upper B2 = Inr u0
         \<and> (if flip_edges hp \<noteq> 0 then flip_conj F l0 else Inr l0) = Inr lower
         \<and> (if flip_edges hp \<noteq> 0 then flip_conj F u0 else Inr u0) = Inr upper
         \<and> nrows lower = ncols B1 \<and> ncols lower = ncols B1
         \<and> nrows upper = nrows B2 \<and> ncols upper = nrows B2"
proof -
  obtain l0 where l0: "L1_lower B1 = Inr l0" "nrows l0 = ncols B1" "ncols l0 = ncols B1"
    by (simp add: L1_lower_def matmul_def transpose_mat_def)
  obtain u0 where u0: "L1_upper B2 = Inr u0" "nrows u0 = nrows B2" "ncols u0 = nrows B2"
    by (simp add: L1_upper_def matmul_def transpose_mat_def)
  show ?thesis
  proof (cases "flip_edges hp \<noteq> 0")
    case False
    with l0 u0 show ?thesis by simp
  next
    case True
    with assms have F: "nrows F = ncols B1" "ncols F = ncols B1" "nrows B2 = ncols B1"
      by simp_all
    obtain lower where "flip_conj F l0 = Inr lower" "nrows lower = ncols B1" "ncols lower = ncols B1"
      using flip_conj_ok [OF F(1,2) l0(2,3)] by blast
    moreover obtain upper where "flip_conj F u0 = Inr upper" "nrows upper = ncols B1" "ncols upper = ncols B1"
      using flip_conj_ok [OF F(1,2), of u0] u0 F by auto
    ultimately show ?thesis
      using True l0 u0 F by simp
  qed
qed

text \<open>
  C4. For every pair of boundary matrices, \<^verbatim>\<open>data_setup\<close> returns the operator list
  of the selected family: \<open>[lower, upper]\<close> for \<open>scone\<close>,
  \<open>[lower, lower\<^sup>2, upper, upper\<^sup>2]\<close> for \<open>scnn2\<close>, the lists with the powers up to
  three and four for \<open>scnn3\<close> and \<open>scnn4\<close>, and \<open>[L, L\<^sup>2, L\<^sup>3]\<close> with
  \<open>L = lower + upper\<close> for \<open>ebli\<close> (where the two operators have one size), the powers
  being repeated products. \<open>lower\<close> and \<open>upper\<close> are \<open>B1\<^sup>T B1\<close> and \<open>B2 B2\<^sup>T\<close>, and
  under \<^verbatim>\<open>flip_edges\<close> their conjugates by \<open>F\<close>.
\<close>

theorem shift_operator_lists:
  assumes "flip_edges hp \<noteq> 0 \<longrightarrow> nrows F = ncols B1 \<and> ncols F = ncols B1 \<and> nrows B2 = ncols B1"
  shows "\<exists>l0 u0 lower upper.
      L1_lower B1 = Inr l0 \<and> L1_upper B2 = Inr u0
    \<and> (if flip_edges hp \<noteq> 0 then flip_conj F l0 else Inr l0) = Inr lower
    \<and> (if flip_edges hp \<noteq> 0 then flip_conj F u0 else Inr u0) = Inr upper
    \<and> (model hp = ''scone'' \<longrightarrow> shifts hp F csm B1 B2 = Inr [lower, upper])
    \<and> (model hp = ''scnn2'' \<longrightarrow>
         (\<exists>l2 u2. mat_power lower 2 = Inr l2 \<and> mat_power upper 2 = Inr u2
            \<and> shifts hp F csm B1 B2 = Inr [lower, l2, upper, u2]))
    \<and> (model hp = ''scnn3'' \<longrightarrow>
         (\<exists>l2 l3 u2 u3. mat_power lower 2 = Inr l2 \<and> mat_power lower 3 = Inr l3
            \<and> mat_power upper 2 = Inr u2 \<and> mat_power upper 3 = Inr u3
            \<and> shifts hp F csm B1 B2 = Inr [lower, l2, l3, upper, u2, u3]))
    \<and> (model hp = ''scnn4'' \<longrightarrow>
         (\<exists>l2 l3 l4 u2 u3 u4. mat_power lower 2 = Inr l2 \<and> mat_power lower 3 = Inr l3
            \<and> mat_power lower 4 = Inr l4 \<and> mat_power upper 2 = Inr u2
            \<and> mat_power upper 3 = Inr u3 \<and> mat_power upper 4 = Inr u4
            \<and> shifts hp F csm B1 B2 = Inr [lower, l2, l3, l4, upper, u2, u3, u4]))
    \<and> (model hp = ''ebli'' \<and> nrows B2 = ncols B1 \<longrightarrow>
         (\<exists>L L2 L3. madd lower upper = Inr L \<and> mat_power L 2 = Inr L2 \<and> mat_power L 3 = Inr L3
            \<and> shifts hp F csm B1 B2 = Inr [L, L2, L3]))"
proof -
  obtain l0 u0 lower upper where b:
    "L1_lower B1 = Inr l0" "L1_upper B2 = Inr u0"
    "(if flip_edges hp \<noteq> 0 then flip_conj F l0 else Inr l0) = Inr lower"
    "(if flip_edges hp \<noteq> 0 then flip_conj F u0 else Inr u0) = Inr upper"
    and dl: "nrows lower = ncols B1" "ncols lower = ncols B1"
    and du: "nrows upper = nrows B2" "ncols upper = nrows B2"
    using base_operators [OF assms] by blast
  have sh: "shifts hp F csm B1 B2 =
      (if model hp = ''scone'' then Inr [lower, upper]
       else if model hp = ''scnn2'' then
         ebind (mat_power lower 2) (\<lambda>l2. ebind (mat_power upper 2) (\<lambda>u2. Inr [lower, l2, upper, u2]))
       else if model hp = ''scnn3'' then
         ebind (mat_power lower 2) (\<lambda>l2. ebind (mat_power lower 3) (\<lambda>l3.
         ebind (mat_power upper 2) (\<lambda>u2. ebind (mat_power upper 3) (\<lambda>u3.
           Inr [lower, l2, l3, upper, u2, u3]))))
       else if model hp = ''scnn4'' then
         ebind (mat_power lower 2) (\<lambda>l2. ebind (mat_power lower 3) (\<lambda>l3. ebind (mat_power lower 4) (\<lambda>l4.
         ebind (mat_power upper 2) (\<lambda>u2. ebind (mat_power upper 3) (\<lambda>u3. ebind (mat_power upper 4) (\<lambda>u4.
           Inr [lower, l2, l3, l4, upper, u2, u3, u4]))))))
       else if model hp = ''ebli'' then
         ebind (madd lower upper) (\<lambda>L1.
         ebind (mat_power L1 2) (\<lambda>p2. ebind (mat_power L1 3) (\<lambda>p3. Inr [L1, p2, p3])))
       else if model hp = ''bunch'' then csm B1 B2
       else Inl (Exception ''invalid model type''))"
  proof (cases "flip_edges hp \<noteq> 0")
    case True
    with b(3,4) have "flip_conj F l0 = Inr lower" "flip_conj F u0 = Inr upper"
      by simp_all
    with True b(1,2) show ?thesis
      by (simp add: shifts_def pow2_mat_power pow3_mat_power pow4_mat_power)
  next
    case False
    with b(3,4) have "l0 = lower" "u0 = upper"
      by simp_all
    with False b(1,2) show ?thesis
      by (simp add: shifts_def pow2_mat_power pow3_mat_power pow4_mat_power)
  qed
  obtain l2 l3 l4 where l: "mat_power lower 2 = Inr l2" "mat_power lower 3 = Inr l3"
      "mat_power lower 4 = Inr l4"
    using mat_power_square [OF dl, of 1] mat_power_square [OF dl, of 2]
      mat_power_square [OF dl, of 3] by (auto simp: eval_nat_numeral)
  obtain u2 u3 u4 where u: "mat_power upper 2 = Inr u2" "mat_power upper 3 = Inr u3"
      "mat_power upper 4 = Inr u4"
    using mat_power_square [OF du, of 1] mat_power_square [OF du, of 2]
      mat_power_square [OF du, of 3] by (auto simp: eval_nat_numeral)
  have e: "\<exists>L L2 L3. madd lower upper = Inr L \<and> mat_power L 2 = Inr L2 \<and> mat_power L 3 = Inr L3
            \<and> shifts hp F csm B1 B2 = Inr [L, L2, L3]"
    if m: "model hp = ''ebli''" and d: "nrows B2 = ncols B1"
  proof -
    obtain L where L: "madd lower upper = Inr L" "nrows L = ncols B1" "ncols L = ncols B1"
      using dl du d by (simp add: madd_def bdim_def)
    obtain L2 L3 where "mat_power L 2 = Inr L2" "mat_power L 3 = Inr L3"
      using mat_power_square [OF L(2,3), of 1] mat_power_square [OF L(2,3), of 2]
      by (auto simp: eval_nat_numeral)
    with L m show ?thesis
      by (simp add: sh)
  qed
  show ?thesis
    apply (rule exI [of _ l0], rule exI [of _ u0], rule exI [of _ lower], rule exI [of _ upper])
    using b l u e by (simp add: sh)
qed

lemma triangle_powers:
  "mat_power (Mat 3 3 [[2, 1, - 1], [1, 2, 1], [- 1, 1, 2]]) 2
   = Inr (Mat 3 3 [[6, 3, - 3], [3, 6, 3], [- 3, 3, 6]])"
  "mat_power (Mat 3 3 [[1, - 1, 1], [- 1, 1, - 1], [1, - 1, 1]]) 2
   = Inr (Mat 3 3 [[3, - 3, 3], [- 3, 3, - 3], [3, - 3, 3]])"
  by (simp_all add: ev)

theorem shift_operator_lists_witness:
  "shifts HYPERPARAMS (diag [1, 1, 1]) (\<lambda>B1 B2. Inr [])
     (Mat 3 3 [[- 1, - 1, 0], [1, 0, - 1], [0, 1, 1]]) (Mat 3 1 [[1], [- 1], [1]])
   = Inr [Mat 3 3 [[2, 1, - 1], [1, 2, 1], [- 1, 1, 2]],
          Mat 3 3 [[6, 3, - 3], [3, 6, 3], [- 3, 3, 6]],
          Mat 3 3 [[1, - 1, 1], [- 1, 1, - 1], [1, - 1, 1]],
          Mat 3 3 [[3, - 3, 3], [- 3, 3, - 3], [3, - 3, 3]]]"
proof -
  have h: "flip_edges HYPERPARAMS = 0" "model HYPERPARAMS = ''scnn2''"
    by (simp_all add: HYPERPARAMS_def)
  from shift_operator_lists [where hp = HYPERPARAMS and F = "diag [1, 1, 1]"
      and csm = "\<lambda>B1 B2. Inr []" and ?B1.0 = "Mat 3 3 [[- 1, - 1, 0], [1, 0, - 1], [0, 1, 1]]"
      and ?B2.0 = "Mat 3 1 [[1], [- 1], [1]]"]
  obtain l2 u2 where
    "mat_power (Mat 3 3 [[2, 1, - 1], [1, 2, 1], [- 1, 1, 2]]) 2 = Inr l2"
    "mat_power (Mat 3 3 [[1, - 1, 1], [- 1, 1, - 1], [1, - 1, 1]]) 2 = Inr u2"
    "shifts HYPERPARAMS (diag [1, 1, 1]) (\<lambda>B1 B2. Inr [])
       (Mat 3 3 [[- 1, - 1, 0], [1, 0, - 1], [0, 1, 1]]) (Mat 3 1 [[1], [- 1], [1]])
     = Inr [Mat 3 3 [[2, 1, - 1], [1, 2, 1], [- 1, 1, 2]], l2,
            Mat 3 3 [[1, - 1, 1], [- 1, 1, - 1], [1, - 1, 1]], u2]"
    unfolding triangle_L1_lower triangle_L1_upper h by auto
  then show ?thesis
    unfolding triangle_powers by simp
qed

subsection \<open>The conditional-incidence selector\<close>









lemma nrows_zeros [simp]: "nrows (zeros r c) = r"
  and ncols_zeros [simp]: "ncols (zeros r c) = c"
  by (simp_all add: zeros_def)

lemma ent_zeros [simp]: "i < r \<Longrightarrow> j < c \<Longrightarrow> ent (zeros r c) i j = 0"
  by (simp add: zeros_def)





subsection \<open>Orientation flips through \<^verbatim>\<open>data_setup\<close>\<close>

text \<open>
  The operands that \<^verbatim>\<open>data_setup\<close> builds with \<^verbatim>\<open>flip_edges\<close> set are the
  conjugated operands of the invariance theorem: for the \<open>scone\<close> family, the
  forward pass on what \<^verbatim>\<open>data_setup\<close> returns with the flag set equals the forward
  pass on what it returns without it.
\<close>

lemma data_setup_flip_invariance:
  assumes "signs flips"
    and "length flips = ncols B1" "nrows B2 = ncols B1" "ncols X = ncols B1" "i < nrows X"
    and "flip_edges hp = 0" "flip_edges hp' \<noteq> 0"
    and "model hp = ''scone''" "model hp' = ''scone''"
  shows "\<exists>lower upper lower' upper' B B' X'.
      shifts hp (diag flips) csm B1 B2 = Inr [lower, upper]
    \<and> shifts hp' (diag flips) csm B1 B2 = Inr [lower', upper']
    \<and> B1_jax hp (diag flips) B1 = Inr B \<and> B1_jax hp' (diag flips) B1 = Inr B'
    \<and> flip_inputs hp (diag flips) X = Inr X \<and> flip_inputs hp' (diag flips) X = Inr X'
    \<and> scone_func ws lower' upper' (Bconds_func nbrs B') n (example X' i)
      = scone_func ws lower upper (Bconds_func nbrs B) n (example X i)"
proof -
  let ?F = "diag flips"
  obtain lower where lower: "L1_lower B1 = Inr lower"
      "nrows lower = length flips" "ncols lower = length flips"
    using assms(2) by (simp add: L1_lower_def matmul_def transpose_mat_def)
  obtain upper where upper: "L1_upper B2 = Inr upper"
      "nrows upper = length flips" "ncols upper = length flips"
    using assms(2,3) by (simp add: L1_upper_def matmul_def transpose_mat_def)
  obtain B where B: "append_rows B1 (zeros 1 (ncols B1)) = Inr B" "ncols B = length flips"
    using assms(2) by (simp add: append_rows_def)
  let ?lower' = "colscale flips (rowscale flips lower)"
  let ?upper' = "colscale flips (rowscale flips upper)"
  have s: "shifts hp ?F csm B1 B2 = Inr [lower, upper]"
    using assms(6,8) lower upper by (simp add: shifts_def)
  have s': "shifts hp' ?F csm B1 B2 = Inr [?lower', ?upper']"
    using assms(7,9) lower upper by (simp add: shifts_def flip_conj_diag)
  have b: "B1_jax hp ?F B1 = Inr B"
    using assms(6) B by (simp add: B1_jax_def)
  have b': "B1_jax hp' ?F B1 = Inr (colscale flips B)"
    using assms(7) B by (simp add: B1_jax_def matmul_diag_right)
  have x: "flip_inputs hp ?F X = Inr X"
    using assms(6) by (simp add: flip_inputs_def)
  have x': "flip_inputs hp' ?F X = Inr (colscale flips X)"
    using assms(2,4,7) by (simp add: flip_inputs_def matmul_diag_right)
  have "nrows (example X i) = length flips"
    using assms(2,4) by (simp add: example_def)
  then have "scone_func ws ?lower' ?upper' (Bconds_func nbrs (colscale flips B)) n
        (rowscale flips (example X i))
      = scone_func ws lower upper (Bconds_func nbrs B) n (example X i)"
    using assms(1) lower upper by (intro scone_func_rowscale) simp_all
  with s s' b b' x x' show ?thesis
    using assms(5) by (simp add: example_colscale)
qed

lemma data_setup_flip_invariance_example:
  "\<exists>lower upper lower' upper' B B' X'.
      shifts (HYPERPARAMS\<lparr>model := ''scone''\<rparr>) (diag [1, - 1]) (\<lambda>B1 B2. Inr [])
        (Mat 3 2 [[- 1, 0], [1, - 1], [0, 1]]) (Mat 2 0 [[], []]) = Inr [lower, upper]
    \<and> shifts (HYPERPARAMS\<lparr>model := ''scone'', flip_edges := 1\<rparr>) (diag [1, - 1])
        (\<lambda>B1 B2. Inr []) (Mat 3 2 [[- 1, 0], [1, - 1], [0, 1]]) (Mat 2 0 [[], []])
        = Inr [lower', upper']
    \<and> B1_jax (HYPERPARAMS\<lparr>model := ''scone''\<rparr>) (diag [1, - 1])
        (Mat 3 2 [[- 1, 0], [1, - 1], [0, 1]]) = Inr B
    \<and> B1_jax (HYPERPARAMS\<lparr>model := ''scone'', flip_edges := 1\<rparr>) (diag [1, - 1])
        (Mat 3 2 [[- 1, 0], [1, - 1], [0, 1]]) = Inr B'
    \<and> flip_inputs (HYPERPARAMS\<lparr>model := ''scone'', flip_edges := 1\<rparr>) (diag [1, - 1])
        (Mat 1 2 [[1, 0]]) = Inr X'
    \<and> scone_func [Mat 1 1 [[1]], Mat 1 1 [[1]], Mat 1 1 [[1]], Mat 1 1 [[1]]] lower' upper'
        (Bconds_func [[1, - 1], [0, 2], [1, - 1]] B') 1 (example X' 0)
      = scone_func [Mat 1 1 [[1]], Mat 1 1 [[1]], Mat 1 1 [[1]], Mat 1 1 [[1]]] lower upper
        (Bconds_func [[1, - 1], [0, 2], [1, - 1]] B) 1 (example (Mat 1 2 [[1, 0]]) 0)"
proof -
  have s: "signs [1, - 1]"
    by (simp add: signs_def)
  from data_setup_flip_invariance [OF s, where ?B1.0 = "Mat 3 2 [[- 1, 0], [1, - 1], [0, 1]]"
      and ?B2.0 = "Mat 2 0 [[], []]" and X = "Mat 1 2 [[1, 0]]" and i = 0
      and hp = "HYPERPARAMS\<lparr>model := ''scone''\<rparr>"
      and hp' = "HYPERPARAMS\<lparr>model := ''scone'', flip_edges := 1\<rparr>"
      and csm = "\<lambda>B1 B2. Inr []"
      and ws = "[Mat 1 1 [[1]], Mat 1 1 [[1]], Mat 1 1 [[1]], Mat 1 1 [[1]]]"
      and nbrs = "[[1, - 1], [0, 2], [1, - 1]]" and n = 1]
  show ?thesis
    by (simp add: HYPERPARAMS_def) blast
qed

subsection \<open>The path prefixes\<close>

lemma traverse_map:
  "(\<And>x. x \<in> set xs \<Longrightarrow> f x = Inr (g x)) \<Longrightarrow> traverse f xs = Inr (map g xs)"
  by (induction xs) simp_all

lemma prefixes_cache_hit: "prefixes (Inr ps) flow_to_path X E last_nodes = Inr ps"
  by (simp add: prefixes_def)

text \<open>
  C10. When reading the prefixes file fails, with whatever error, \<^verbatim>\<open>data_setup\<close>
  recomputes the prefix of every example with \<^verbatim>\<open>flow_to_path\<close> from the example's
  flow and last node, and returns the recomputed prefixes: the error of the read is not
  propagated. (The dataset holds one flow per last node, and \<^verbatim>\<open>flow_to_path\<close>
  returns a path for each.)
\<close>

theorem prefixes_recomputed_when_cache_fails:
  assumes "loaded = Inl err"
    and "nrows X = length last_nodes"
    and "\<forall>i<length last_nodes. flow_to_path (example X i) E (last_nodes ! i) = Inr (path i)"
  shows "prefixes loaded flow_to_path X E last_nodes = Inr (map path [0..<length last_nodes])"
proof -
  have "ebind (flow_at X i) (\<lambda>flow. ebind (getw last_nodes (int i))
          (\<lambda>ln. flow_to_path flow E ln)) = Inr (path i)"
    if "i \<in> set [0..<length last_nodes]" for i
    using that assms(2,3) by (simp add: flow_at_def getw_def)
  then have "traverse (\<lambda>i. ebind (flow_at X i) (\<lambda>flow. ebind (getw last_nodes (int i))
          (\<lambda>ln. flow_to_path flow E ln))) [0..<length last_nodes]
      = Inr (map path [0..<length last_nodes])"
    by (rule traverse_map)
  with assms(1) show ?thesis
    by (simp add: prefixes_def)
qed

theorem prefixes_recomputed_when_cache_fails_witness:
  "prefixes (Inl LoadError) (\<lambda>flow E ln. Inr [ln]) (Mat 2 2 [[1, 0], [1, 1]]) () [1, 2]
   = Inr [[1], [2]]"
  using prefixes_recomputed_when_cache_fails [where loaded = "Inl LoadError" and err = LoadError
      and X = "Mat 2 2 [[1, 0], [1, 1]]" and last_nodes = "[1, 2]"
      and flow_to_path = "\<lambda>flow E ln. Inr [ln]" and E = "()" and path = "\<lambda>i. [[1, 2] ! i]"]
  by (simp add: eval_nat_numeral)

subsection \<open>Regional split\<close>

lemma mod3_cases: "(i::nat) mod 3 \<noteq> 0 \<longleftrightarrow> i mod 3 = 1 \<or> i mod 3 = 2"
  by presburger

lemma selected_regional_train: "selected (regional_train_mask n) = {i. i < n \<and> i mod 3 = 1}"
  by (auto simp: selected_def regional_train_mask_def split: if_splits)

lemma selected_regional_test: "selected (regional_test_mask n) = {i. i < n \<and> i mod 3 = 2}"
  by (auto simp: selected_def regional_test_mask_def split: if_splits)

text \<open>
  C9. Under the regional configuration the train mask selects exactly the indices
  \<open>i\<close> with \<open>i mod 3 = 1\<close> and the test mask exactly those with \<open>i mod 3 = 2\<close>; the
  two selections are disjoint, and together they are exactly the indices outside the
  middle third (\<open>i mod 3 = 0\<close>).
\<close>

theorem regional_split:
  assumes "regional hp \<noteq> 0"
      and "masks hp y_1hop train_mask test_mask = (tr, te)"
  shows "selected tr = {i. i < length y_1hop \<and> i mod 3 = 1}
       \<and> selected te = {i. i < length y_1hop \<and> i mod 3 = 2}
       \<and> selected tr \<inter> selected te = {}
       \<and> selected tr \<union> selected te = {i. i < length y_1hop \<and> i mod 3 \<noteq> 0}
       \<and> length tr = length y_1hop \<and> length te = length y_1hop"
proof -
  from assms have tr: "tr = regional_train_mask (length y_1hop)"
    and te: "te = regional_test_mask (length y_1hop)"
    by (simp_all add: masks_def)
  have len: "length tr = length y_1hop" "length te = length y_1hop"
    by (simp_all add: tr te regional_train_mask_def regional_test_mask_def)
  have a: "selected tr = {i. i < length y_1hop \<and> i mod 3 = 1}"
    by (simp add: tr selected_regional_train)
  have b: "selected te = {i. i < length y_1hop \<and> i mod 3 = 2}"
    by (simp add: te selected_regional_test)
  have c: "selected tr \<inter> selected te = {}"
    unfolding a b by auto
  have d: "selected tr \<union> selected te = {i. i < length y_1hop \<and> i mod 3 \<noteq> 0}"
    unfolding a b by (auto simp: mod3_cases)
  from a b c d len show ?thesis by simp
qed

theorem regional_split_witness:
  "selected (fst (masks (HYPERPARAMS\<lparr>regional := 1\<rparr>) [0::nat, 1, 0, 2, 1] [1, 1, 1, 0, 0] [0, 0, 0, 1, 1])) = {1, 4}
   \<and> selected (snd (masks (HYPERPARAMS\<lparr>regional := 1\<rparr>) [0::nat, 1, 0, 2, 1] [1, 1, 1, 0, 0] [0, 0, 0, 1, 1])) = {2}"
proof -
  obtain tr te where m: "masks (HYPERPARAMS\<lparr>regional := 1\<rparr>) [0::nat, 1, 0, 2, 1] [1, 1, 1, 0, 0] [0, 0, 0, 1, 1] = (tr, te)"
    by (cases "masks (HYPERPARAMS\<lparr>regional := 1\<rparr>) [0::nat, 1, 0, 2, 1] [1, 1, 1, 0, 0] [0, 0, 0, 1, 1]") blast
  have one: "regional (HYPERPARAMS\<lparr>regional := 1\<rparr>) \<noteq> 0" by simp
  have len: "length [0::nat, 1, 0, 2, 1] = 5" by simp
  from regional_split [OF one m]
  have "selected tr = {i. i < 5 \<and> i mod 3 = 1}" and "selected te = {i. i < 5 \<and> i mod 3 = 2}"
    unfolding len by blast+
  moreover have "\<And>i::nat. (i < 5 \<and> i mod 3 = 1) = (i = 1 \<or> i = 4)"
    by presburger
  then have "{i::nat. i < 5 \<and> i mod 3 = 1} = {1, 4}"
    by auto
  moreover have "\<And>i::nat. (i < 5 \<and> i mod 3 = 2) = (i = 2)"
    by presburger
  then have "{i::nat. i < 5 \<and> i mod 3 = 2} = {2}"
    by auto
  ultimately show ?thesis using m by simp
qed

end
